theory Spec2Isabelle
  imports Complex_Main
begin

section \<open>Common conventions of the embedding\<close>

text \<open>
  The node is TypeScript running on the n8n host.  The embedding uses
  \<^item> \<open>real\<close> for a JavaScript \<open>number\<close> (NaN and the infinities are outside the model),
  \<^item> \<open>int\<close> for a \<open>bigint\<close>, \<open>nat\<close> for the block numbers, nonces and timestamps that
    the JSON-RPC provider reports,
  \<^item> \<open>string\<close> for a string, \<open>'a option\<close> for a value that may be \<open>null\<close> or
    \<open>undefined\<close>,
  \<^item> \<open>error + 'a\<close> for a computation that may throw (a rejected promise is \<open>Inl\<close>).
  Functions of the ethers.js library and of the host are parameters of the model.
\<close>

type_synonym number = real

datatype error = Error string

fun message :: "error \<Rightarrow> string" where
  "message (Error m) = m"

definition bindE :: "error + 'a \<Rightarrow> ('a \<Rightarrow> error + 'b) \<Rightarrow> error + 'b" where
  "bindE m f = (case m of Inl e \<Rightarrow> Inl e | Inr x \<Rightarrow> f x)"

text \<open>\<open>a / b\<close> on bigints truncates toward zero; the divisor is non-zero at every use of
  \<open>bigint_quot\<close>, and \<open>bigint_div\<close> throws the RangeError of a zero divisor.\<close>

definition bigint_quot :: "int \<Rightarrow> int \<Rightarrow> int" where
  "bigint_quot a b = sgn a * sgn b * (\<bar>a\<bar> div \<bar>b\<bar>)"

definition bigint_div :: "int \<Rightarrow> int \<Rightarrow> error + int" where
  "bigint_div a b =
     (if b = 0 then Inl (Error ''Division by zero'') else Inr (bigint_quot a b))"

text \<open>\<open>x || d\<close> on an optional number or bigint: \<open>undefined\<close>, \<open>null\<close> and \<open>0\<close> are falsy.\<close>

definition or_else :: "'a::zero option \<Rightarrow> 'a \<Rightarrow> 'a" where
  "or_else x d = (case x of None \<Rightarrow> d | Some v \<Rightarrow> if v = 0 then d else v)"

text \<open>A string is truthy when it is not empty.\<close>

definition truthy :: "string \<Rightarrow> bool" where
  "truthy s = (s \<noteq> [])"

section \<open>utils/proofUtils.ts: batch status classification\<close>

datatype BatchStatus = PENDING | COMMITTED | PROVED | FINALIZED

definition isBatchFinalized :: "number \<Rightarrow> number \<Rightarrow> bool" where
  "isBatchFinalized batchIndex lastFinalizedIndex = (batchIndex \<le> lastFinalizedIndex)"

definition isBatchCommitted :: "number \<Rightarrow> number \<Rightarrow> bool" where
  "isBatchCommitted batchIndex lastCommittedIndex = (batchIndex \<le> lastCommittedIndex)"

definition getBatchStatus :: "number \<Rightarrow> number \<Rightarrow> number \<Rightarrow> BatchStatus" where
  "getBatchStatus batchIndex lastFinalizedIndex lastCommittedIndex =
     (if batchIndex \<le> lastFinalizedIndex then FINALIZED
      else if batchIndex \<le> lastCommittedIndex then COMMITTED
      else PENDING)"

record Log =
  log_address :: string
  log_topics :: "string list"
  log_data :: string
  log_blockNumber :: nat
  log_transactionHash :: string

text \<open>\<open>xs[i]\<close> on a JavaScript array is \<open>undefined\<close> out of range.\<close>

definition at_index :: "'a list \<Rightarrow> nat \<Rightarrow> 'a option" where
  "at_index xs i = (if i < length xs then Some (xs ! i) else None)"

text \<open>\<open>Partial<BatchInfo>\<close> as \<open>parseRollupEvent\<close> fills it.\<close>

record PartialBatchInfo =
  pb_index :: "number option"
  pb_hash :: "string option"
  pb_status :: BatchStatus
  pb_l1TxHash :: string
  pb_stateRoot :: "string option"
  pb_withdrawRoot :: "string option"

datatype RollupEventType = Commit | Finalize

text \<open>\<open>parseInt16\<close> is \<open>parseInt(_, 16)\<close> (\<open>None\<close> for NaN) and \<open>decode2\<close> is
  \<open>AbiCoder.decode(['bytes32', 'bytes32'], _)\<close>; the \<open>try\<close>/\<open>catch\<close> turns a throw of the
  decoder into \<open>null\<close>.\<close>

definition parseRollupEvent ::
  "(string option \<Rightarrow> number option) \<Rightarrow> (string \<Rightarrow> error + string \<times> string) \<Rightarrow>
   Log \<Rightarrow> RollupEventType \<Rightarrow> PartialBatchInfo option" where
  "parseRollupEvent parseInt16 decode2 lg eventType =
     (let batchIndex = parseInt16 (at_index (log_topics lg) 1);
          batchHash = at_index (log_topics lg) 2
      in case eventType of
           Commit \<Rightarrow>
             Some \<lparr>pb_index = batchIndex, pb_hash = batchHash, pb_status = COMMITTED,
                   pb_l1TxHash = log_transactionHash lg,
                   pb_stateRoot = None, pb_withdrawRoot = None\<rparr>
         | Finalize \<Rightarrow>
             (case decode2 (log_data lg) of
                Inl e \<Rightarrow> None
              | Inr (d0, d1) \<Rightarrow>
                  Some \<lparr>pb_index = batchIndex, pb_hash = batchHash, pb_status = FINALIZED,
                        pb_l1TxHash = log_transactionHash lg,
                        pb_stateRoot = Some d0, pb_withdrawRoot = Some d1\<rparr>))"

section \<open>transport/batchClient.ts: BatchClient.getBatchInfo\<close>

text \<open>The view functions of the L1 ScrollChain contract that \<open>getBatchInfo\<close> reads.\<close>

record ScrollChain =
  sc_isBatchFinalized :: "number \<Rightarrow> error + bool"
  sc_committedBatches :: "number \<Rightarrow> error + string"
  sc_finalizedStateRoots :: "number \<Rightarrow> error + string"
  sc_withdrawRoots :: "number \<Rightarrow> error + string"

record BatchInfo =
  bi_index :: number
  bi_hash :: string
  bi_status :: BatchStatus
  bi_stateRoot :: "string option"
  bi_withdrawRoot :: "string option"

definition ZeroHash :: string where
  "ZeroHash = ''0x0000000000000000000000000000000000000000000000000000000000000000''"

text \<open>\<open>p.catch(() => d)\<close>.\<close>

definition catch_default :: "error + 'a \<Rightarrow> 'a \<Rightarrow> 'a" where
  "catch_default r d = (case r of Inl e \<Rightarrow> d | Inr v \<Rightarrow> v)"

text \<open>\<open>Promise.all\<close> rejects when one of its promises rejects; the model reports the
  rejection of the earliest array position.\<close>

definition getBatchInfo :: "ScrollChain \<Rightarrow> number \<Rightarrow> error + BatchInfo" where
  "getBatchInfo scrollChain batchIndex =
     bindE (sc_isBatchFinalized scrollChain batchIndex) (\<lambda>isFinalized.
     bindE (sc_committedBatches scrollChain batchIndex) (\<lambda>commitment.
       let stateRoot = catch_default (sc_finalizedStateRoots scrollChain batchIndex) ZeroHash;
           withdrawRoot = catch_default (sc_withdrawRoots scrollChain batchIndex) ZeroHash;
           status = (if isFinalized then FINALIZED
                     else if commitment \<noteq> ZeroHash then COMMITTED
                     else PENDING)
       in Inr \<lparr>bi_index = batchIndex, bi_hash = commitment, bi_status = status,
                bi_stateRoot = (if stateRoot \<noteq> ZeroHash then Some stateRoot else None),
                bi_withdrawRoot =
                  (if withdrawRoot \<noteq> ZeroHash then Some withdrawRoot else None)\<rparr>))"

section \<open>Bridge utilities: fee heuristic and gateway encoders\<close>

definition calculateBridgeFee :: "int \<Rightarrow> int \<Rightarrow> bool \<Rightarrow> int" where
  "calculateBridgeFee gasLimit l1GasPrice isDeposit =
     (let baseFee = gasLimit * l1GasPrice
      in if isDeposit then bigint_quot (baseFee * 120) 100
         else bigint_quot (baseFee * 150) 100)"

text \<open>The arguments handed to \<open>AbiCoder.encode\<close>; the coder itself belongs to ethers.js
  and is a parameter.\<close>

datatype js_value = VString string | VBigInt int

type_synonym abi_coder = "string list \<Rightarrow> js_value list \<Rightarrow> error + string"

definition encodeDepositData :: "abi_coder \<Rightarrow> string \<Rightarrow> int \<Rightarrow> int \<Rightarrow> error + string" where
  "encodeDepositData abiCoder_encode recipient amount gasLimit =
     abiCoder_encode [''address'', ''uint256'', ''uint256'']
       [VString recipient, VBigInt amount, VBigInt gasLimit]"

definition encodeWithdrawalData :: "abi_coder \<Rightarrow> string \<Rightarrow> int \<Rightarrow> int \<Rightarrow> error + string" where
  "encodeWithdrawalData abiCoder_encode recipient amount gasLimit =
     abiCoder_encode [''address'', ''uint256'', ''uint256'']
       [VString recipient, VBigInt amount, VBigInt gasLimit]"

section \<open>JSON results and items\<close>

datatype JsonValue =
    JNull | JUndefined | JBool bool | JNumber number | JString string
  | JArray "JsonValue list" | JObject "(string \<times> JsonValue) list"

type_synonym IDataObject = "(string \<times> JsonValue) list"

record INodeExecutionData =
  item_json :: IDataObject
  item_pairedItem :: "nat option"

text \<open>\<open>toString()\<close> of a bigint: decimal digits, with a leading minus sign.\<close>

fun nat_toString :: "nat \<Rightarrow> string" where
  "nat_toString n =
     (if n < 10 then [''0123456789'' ! n]
      else nat_toString (n div 10) @ [''0123456789'' ! (n mod 10)])"

declare nat_toString.simps [simp del]

definition bigint_toString :: "int \<Rightarrow> string" where
  "bigint_toString v =
     (if v < 0 then ''-'' @ nat_toString (nat (- v)) else nat_toString (nat v))"

text \<open>Reading decimal digits back, to show that \<open>toString\<close> loses nothing.\<close>

definition digit_value :: "char \<Rightarrow> nat" where
  "digit_value c = of_char c - 48"

definition parse_digits :: "string \<Rightarrow> nat" where
  "parse_digits s = foldl (\<lambda>acc c. 10 * acc + digit_value c) 0 s"

text \<open>\<open>x?.toString()\<close> and \<open>x ? formatUnits(x, 'gwei') : null\<close> on an optional bigint.\<close>

definition opt_toString :: "int option \<Rightarrow> JsonValue" where
  "opt_toString x = (case x of None \<Rightarrow> JUndefined | Some v \<Rightarrow> JString (bigint_toString v))"

section \<open>Collaborators: ethers.js and the JSON-RPC provider\<close>

text \<open>The functions of ethers.js and of the JavaScript runtime that the node calls.
  They are parameters: nothing is assumed about what they compute.\<close>

record Ethers =
  eth_isAddress :: "string \<Rightarrow> error + bool"
  eth_getAddress :: "string \<Rightarrow> error + string"
  eth_formatEther :: "int \<Rightarrow> string"
  eth_formatUnits_gwei :: "int \<Rightarrow> string"
  eth_parseEther :: "string \<Rightarrow> error + int"
  eth_id :: "string \<Rightarrow> string"
  eth_zeroPadValue :: "string \<Rightarrow> nat \<Rightarrow> error + string"
  js_number_toString :: "number \<Rightarrow> string"
  js_BigInt :: "string \<Rightarrow> error + int"
  js_parseFloat :: "string \<Rightarrow> number"
  js_toFixed2 :: "number \<Rightarrow> string"
  js_toLowerCase :: "string \<Rightarrow> string"

record FeeData =
  fd_gasPrice :: "int option"
  fd_maxFeePerGas :: "int option"
  fd_maxPriorityFeePerGas :: "int option"

record TransactionRequest =
  tx_data :: "string option"
  tx_to :: "string option"
  tx_value :: "int option"

record TransactionResponse =
  txr_hash :: string
  txr_from :: string
  txr_to :: "string option"
  txr_value :: int

record Block =
  blk_number :: nat
  blk_hash :: "string option"
  blk_timestamp :: nat
  blk_transactions :: "string list"
  blk_gasUsed :: int
  blk_gasLimit :: int
  blk_baseFeePerGas :: "int option"
  blk_prefetchedTransactions :: "TransactionResponse list"

record TransactionReceipt =
  rc_blockNumber :: nat
  rc_status :: "nat option"
  rc_gasUsed :: int

record LogFilter =
  flt_address :: "string option"
  flt_topics :: "string option list"
  flt_fromBlock :: nat
  flt_toBlock :: nat

datatype BlockTag = BlockNum number | TagFinalized

text \<open>What the provider answers during one invocation.  \<open>p_getBlockNumber k\<close> is the
  answer to the \<open>k\<close>-th call of \<open>getBlockNumber\<close> in the invocation (the trigger asks twice
  and the chain may have advanced in between); the other methods answer by argument.
  The \<open>p_call_\<close> fields are the view functions of the L1 gas price oracle contract, by
  contract address.\<close>

record Provider =
  p_getBlockNumber :: "nat \<Rightarrow> error + nat"
  p_getBlock :: "BlockTag \<Rightarrow> bool \<Rightarrow> error + Block option"
  p_getTransactionReceipt :: "string \<Rightarrow> error + TransactionReceipt option"
  p_getLogs :: "LogFilter \<Rightarrow> error + Log list"
  p_getTransactionCount :: "string \<Rightarrow> error + nat"
  p_getBalance :: "string \<Rightarrow> error + int"
  p_getFeeData :: "error + FeeData"
  p_estimateGas :: "TransactionRequest \<Rightarrow> error + int"
  p_getNetwork :: "error + int"
  p_call_getL1Fee :: "string \<Rightarrow> string \<Rightarrow> error + int"
  p_call_l1BaseFee :: "string \<Rightarrow> error + int"
  p_call_overhead :: "string \<Rightarrow> error + int"
  p_call_scalar :: "string \<Rightarrow> error + int"

section \<open>Address utilities\<close>

definition isValidAddress :: "Ethers \<Rightarrow> string \<Rightarrow> bool" where
  "isValidAddress lib address = catch_default (eth_isAddress lib address) False"

definition toChecksumAddress :: "Ethers \<Rightarrow> string \<Rightarrow> error + string" where
  "toChecksumAddress lib address =
     (if \<not> isValidAddress lib address then Inl (Error (''Invalid address: '' @ address))
      else eth_getAddress lib address)"

section \<open>Gas utilities\<close>

record GasEstimate =
  ge_gasLimit :: int
  ge_gasPrice :: int
  ge_maxFeePerGas :: int
  ge_maxPriorityFeePerGas :: int
  ge_l1DataFee :: int
  ge_l2ExecutionFee :: int
  ge_totalFee :: int

definition getGasPrice :: "Provider \<Rightarrow> error + int" where
  "getGasPrice provider =
     bindE (p_getFeeData provider) (\<lambda>feeData. Inr (or_else (fd_gasPrice feeData) 0))"

definition getFeeData :: "Provider \<Rightarrow> error + FeeData" where
  "getFeeData provider =
     bindE (p_getFeeData provider) (\<lambda>feeData.
       Inr \<lparr>fd_gasPrice = fd_gasPrice feeData, fd_maxFeePerGas = fd_maxFeePerGas feeData,
            fd_maxPriorityFeePerGas = fd_maxPriorityFeePerGas feeData\<rparr>)"

definition estimateGas :: "Provider \<Rightarrow> TransactionRequest \<Rightarrow> error + int" where
  "estimateGas provider transaction =
     (case p_estimateGas provider transaction of
        Inr estimate \<Rightarrow> Inr (bigint_quot (estimate * 120) 100)
      | Inl e \<Rightarrow> Inl (Error (''Gas estimation failed: '' @ message e)))"

text \<open>The \<open>try\<close>/\<open>catch\<close> of \<open>getL1DataFee\<close> returns \<open>0n\<close> when the oracle call fails, so
  the function never throws; \<open>BigInt(fee.toString())\<close> is the fee itself.\<close>

definition getL1DataFee :: "Provider \<Rightarrow> string \<Rightarrow> string \<Rightarrow> int" where
  "getL1DataFee provider oracleAddress txData =
     (case p_call_getL1Fee provider oracleAddress txData of
        Inr fee \<Rightarrow> fee
      | Inl e \<Rightarrow> 0)"

definition calculateTotalFee ::
  "Provider \<Rightarrow> TransactionRequest \<Rightarrow> string option \<Rightarrow> error + GasEstimate" where
  "calculateTotalFee provider transaction oracleAddress =
     bindE (estimateGas provider transaction) (\<lambda>gasLimit.
     bindE (getFeeData provider) (\<lambda>feeData.
       let gasPrice = or_else (fd_gasPrice feeData) 0;
           maxFeePerGas = or_else (fd_maxFeePerGas feeData) gasPrice;
           maxPriorityFeePerGas = or_else (fd_maxPriorityFeePerGas feeData) 0;
           l2ExecutionFee = gasLimit * maxFeePerGas;
           l1DataFee =
             (case (oracleAddress, tx_data transaction) of
                (Some oa, Some d) \<Rightarrow>
                  if truthy oa \<and> truthy d then getL1DataFee provider oa d else 0
              | _ \<Rightarrow> 0);
           totalFee = l2ExecutionFee + l1DataFee
       in Inr \<lparr>ge_gasLimit = gasLimit, ge_gasPrice = gasPrice,
                ge_maxFeePerGas = maxFeePerGas,
                ge_maxPriorityFeePerGas = maxPriorityFeePerGas,
                ge_l1DataFee = l1DataFee, ge_l2ExecutionFee = l2ExecutionFee,
                ge_totalFee = totalFee\<rparr>))"

section \<open>Resource modules: calls issued and result\<close>

text \<open>A resource operation is modelled with the list of provider and contract calls it
  issues, in order, next to its outcome.\<close>

datatype Call =
    CGetFeeData | CEstimateGas | CGetL1Fee | CL1BaseFee | COverhead | CScalar
  | CGetBlockNumber | CGetBlock number | CGetNetwork

type_synonym 'a traced = "Call list \<times> (error + 'a)"

definition call :: "Call \<Rightarrow> error + 'a \<Rightarrow> 'a traced" where
  "call c r = ([c], r)"

definition retT :: "'a \<Rightarrow> 'a traced" where
  "retT x = ([], Inr x)"

definition liftT :: "error + 'a \<Rightarrow> 'a traced" where
  "liftT r = ([], r)"

definition bindT :: "'a traced \<Rightarrow> ('a \<Rightarrow> 'b traced) \<Rightarrow> 'b traced" where
  "bindT m f =
     (case m of
        (t, Inl e) \<Rightarrow> (t, Inl e)
      | (t, Inr x) \<Rightarrow> (case f x of (t', r) \<Rightarrow> (t @ t', r)))"

text \<open>\<open>try { m } catch { h }\<close>.\<close>

definition catchT :: "'a traced \<Rightarrow> (error \<Rightarrow> 'a traced) \<Rightarrow> 'a traced" where
  "catchT m h =
     (case m of
        (t, Inl e) \<Rightarrow> (case h e of (t', r) \<Rightarrow> (t @ t', r))
      | (t, Inr x) \<Rightarrow> (t, Inr x))"

text \<open>Two promises under \<open>Promise.all\<close>: both calls are issued, and the result rejects
  when one of them rejects.\<close>

definition bothT :: "'a traced \<Rightarrow> 'b traced \<Rightarrow> ('a \<times> 'b) traced" where
  "bothT m1 m2 =
     (fst m1 @ fst m2,
      case snd m1 of
        Inl e \<Rightarrow> Inl e
      | Inr a \<Rightarrow> (case snd m2 of Inl e \<Rightarrow> Inl e | Inr b \<Rightarrow> Inr (a, b)))"

subsection \<open>The gas resource\<close>

definition L1_GAS_PRICE_ORACLE_ADDRESS :: string where
  "L1_GAS_PRICE_ORACLE_ADDRESS = ''0x5300000000000000000000000000000000000002''"

record GasParams =
  gp_toAddress :: string
  gp_value :: number
  gp_data :: string
  gp_blockCount :: number

definition opt_gwei :: "Ethers \<Rightarrow> int option \<Rightarrow> JsonValue" where
  "opt_gwei lib x =
     (case x of
        None \<Rightarrow> JNull
      | Some v \<Rightarrow> if v = 0 then JNull else JString (eth_formatUnits_gwei lib v))"

definition gas_getGasPrice :: "Ethers \<Rightarrow> Provider \<Rightarrow> IDataObject traced" where
  "gas_getGasPrice lib provider =
     bindT (call CGetFeeData (p_getFeeData provider)) (\<lambda>feeData.
       retT [(''gasPrice'', opt_toString (fd_gasPrice feeData)),
             (''gasPriceGwei'', opt_gwei lib (fd_gasPrice feeData)),
             (''maxFeePerGas'', opt_toString (fd_maxFeePerGas feeData)),
             (''maxFeePerGasGwei'', opt_gwei lib (fd_maxFeePerGas feeData)),
             (''maxPriorityFeePerGas'', opt_toString (fd_maxPriorityFeePerGas feeData)),
             (''maxPriorityFeeGwei'', opt_gwei lib (fd_maxPriorityFeePerGas feeData))])"

definition gas_getMaxFeePerGas :: "Ethers \<Rightarrow> Provider \<Rightarrow> IDataObject traced" where
  "gas_getMaxFeePerGas lib provider =
     bindT (call CGetFeeData (p_getFeeData provider)) (\<lambda>feeData.
       retT [(''maxFeePerGas'', opt_toString (fd_maxFeePerGas feeData)),
             (''maxFeePerGasGwei'', opt_gwei lib (fd_maxFeePerGas feeData))])"

definition gas_getMaxPriorityFee :: "Ethers \<Rightarrow> Provider \<Rightarrow> IDataObject traced" where
  "gas_getMaxPriorityFee lib provider =
     bindT (call CGetFeeData (p_getFeeData provider)) (\<lambda>feeData.
       retT [(''maxPriorityFeePerGas'', opt_toString (fd_maxPriorityFeePerGas feeData)),
             (''maxPriorityFeeGwei'', opt_gwei lib (fd_maxPriorityFeePerGas feeData))])"

text \<open>The transaction request that \<open>estimateGas\<close> and \<open>getTotalFeeEstimate\<close> build from
  the item's parameters.\<close>

definition gas_build_tx :: "Ethers \<Rightarrow> GasParams \<Rightarrow> error + TransactionRequest" where
  "gas_build_tx lib params =
     bindE (if truthy (gp_toAddress params) \<and> isValidAddress lib (gp_toAddress params)
            then bindE (toChecksumAddress lib (gp_toAddress params)) (\<lambda>a. Inr (Some a))
            else Inr None) (\<lambda>to.
     bindE (if gp_value params > 0
            then bindE (eth_parseEther lib (js_number_toString lib (gp_value params)))
                   (\<lambda>v. Inr (Some v))
            else Inr None) (\<lambda>v.
       Inr \<lparr>tx_data = Some (gp_data params), tx_to = to, tx_value = v\<rparr>))"

text \<open>\<open>feeData.gasPrice ? gas * feeData.gasPrice : 0n\<close>.\<close>

definition fee_or_zero :: "int option \<Rightarrow> int \<Rightarrow> int" where
  "fee_or_zero gasPrice gas =
     (case gasPrice of None \<Rightarrow> 0 | Some gp \<Rightarrow> if gp = 0 then 0 else gas * gp)"

definition gas_estimateGas :: "Ethers \<Rightarrow> Provider \<Rightarrow> GasParams \<Rightarrow> IDataObject traced" where
  "gas_estimateGas lib provider params =
     bindT (liftT (gas_build_tx lib params)) (\<lambda>tx.
     bindT (call CEstimateGas (p_estimateGas provider tx)) (\<lambda>gasEstimate.
     bindT (call CGetFeeData (p_getFeeData provider)) (\<lambda>feeData.
       let estimatedCost = fee_or_zero (fd_gasPrice feeData) gasEstimate
       in retT [(''gasEstimate'', JString (bigint_toString gasEstimate)),
                (''gasPrice'', opt_toString (fd_gasPrice feeData)),
                (''estimatedCostWei'', JString (bigint_toString estimatedCost)),
                (''estimatedCostEth'', JString (eth_formatEther lib estimatedCost))])))"

text \<open>\<open>data ? (data.length - 2) / 2 : 0\<close> and \<open>data || '0x'\<close>.\<close>

definition dataSize :: "string \<Rightarrow> JsonValue" where
  "dataSize d = (if truthy d then JNumber ((real (length d) - 2) / 2) else JNumber 0)"

definition data_or_0x :: "string \<Rightarrow> string" where
  "data_or_0x d = (if truthy d then d else ''0x'')"

definition gas_getL1DataFee :: "Ethers \<Rightarrow> Provider \<Rightarrow> GasParams \<Rightarrow> IDataObject traced" where
  "gas_getL1DataFee lib provider params =
     catchT
       (bindT (call CGetL1Fee
                 (p_call_getL1Fee provider L1_GAS_PRICE_ORACLE_ADDRESS
                    (data_or_0x (gp_data params)))) (\<lambda>l1DataFee.
          retT [(''l1DataFee'', JString (bigint_toString l1DataFee)),
                (''l1DataFeeEth'', JString (eth_formatEther lib l1DataFee)),
                (''dataSize'', dataSize (gp_data params))]))
       (\<lambda>e. retT [(''message'', JString ''Could not calculate L1 data fee''),
                  (''dataSize'', dataSize (gp_data params))])"

definition gas_getL2ExecutionFee :: "Ethers \<Rightarrow> Provider \<Rightarrow> IDataObject traced" where
  "gas_getL2ExecutionFee lib provider =
     bindT (call CGetFeeData (p_getFeeData provider)) (\<lambda>feeData.
       let baseGas = 21000;
           executionFee = fee_or_zero (fd_gasPrice feeData) baseGas
       in retT [(''baseGas'', JString (bigint_toString baseGas)),
                (''gasPrice'', opt_toString (fd_gasPrice feeData)),
                (''l2ExecutionFee'', JString (bigint_toString executionFee)),
                (''l2ExecutionFeeEth'', JString (eth_formatEther lib executionFee))])"

definition gas_getTotalFeeEstimate ::
  "Ethers \<Rightarrow> Provider \<Rightarrow> GasParams \<Rightarrow> IDataObject traced" where
  "gas_getTotalFeeEstimate lib provider params =
     bindT (liftT (gas_build_tx lib params)) (\<lambda>tx.
     bindT (call CEstimateGas (p_estimateGas provider tx)) (\<lambda>gasEstimate.
     bindT (call CGetFeeData (p_getFeeData provider)) (\<lambda>feeData.
     let l2Fee = fee_or_zero (fd_gasPrice feeData) gasEstimate in
     bindT (catchT
              (call CGetL1Fee
                 (p_call_getL1Fee provider L1_GAS_PRICE_ORACLE_ADDRESS
                    (data_or_0x (gp_data params))))
              (\<lambda>e. retT 0)) (\<lambda>l1Fee.
       let totalFee = l2Fee + l1Fee
       in retT [(''gasEstimate'', JString (bigint_toString gasEstimate)),
                (''l2ExecutionFee'', JString (bigint_toString l2Fee)),
                (''l1DataFee'', JString (bigint_toString l1Fee)),
                (''totalFee'', JString (bigint_toString totalFee)),
                (''totalFeeEth'', JString (eth_formatEther lib totalFee))]))))"

definition gas_getGasOracle :: "Provider \<Rightarrow> IDataObject traced" where
  "gas_getGasOracle provider =
     catchT
       (bindT
          (bothT (catchT (call CL1BaseFee
                            (p_call_l1BaseFee provider L1_GAS_PRICE_ORACLE_ADDRESS))
                    (\<lambda>e. retT 0))
             (bothT (catchT (call COverhead
                               (p_call_overhead provider L1_GAS_PRICE_ORACLE_ADDRESS))
                       (\<lambda>e. retT 0))
                    (catchT (call CScalar
                               (p_call_scalar provider L1_GAS_PRICE_ORACLE_ADDRESS))
                       (\<lambda>e. retT 0))))
          (\<lambda>(l1BaseFee, overhead, scalar).
             retT [(''oracleAddress'', JString L1_GAS_PRICE_ORACLE_ADDRESS),
                   (''l1BaseFee'', JString (bigint_toString l1BaseFee)),
                   (''overhead'', JString (bigint_toString overhead)),
                   (''scalar'', JString (bigint_toString scalar))]))
       (\<lambda>e. retT [(''oracleAddress'', JString L1_GAS_PRICE_ORACLE_ADDRESS),
                  (''message'', JString ''Could not fetch oracle data'')])"

text \<open>The loop of \<open>getGasHistory\<close>: \<open>for (let i = 0; i < blockCount; i++)\<close>, one
  \<open>getBlock\<close> per round; \<open>(gasUsed * 100n) / gasLimit\<close> throws on a zero gas limit.\<close>

function gas_history_loop ::
  "Provider \<Rightarrow> number \<Rightarrow> nat \<Rightarrow> nat \<Rightarrow> JsonValue list \<Rightarrow> JsonValue list traced" where
  "gas_history_loop provider blockCount currentBlock i history =
     (if real i < blockCount then
        bindT (call (CGetBlock (real currentBlock - real i))
                 (p_getBlock provider (BlockNum (real currentBlock - real i)) False))
          (\<lambda>block. case block of
               None \<Rightarrow> gas_history_loop provider blockCount currentBlock (i + 1) history
             | Some b \<Rightarrow>
                 (case bigint_div (blk_gasUsed b * 100) (blk_gasLimit b) of
                    Inl e \<Rightarrow> ([], Inl e)
                  | Inr u \<Rightarrow>
                      gas_history_loop provider blockCount currentBlock (i + 1)
                        (history @
                         [JObject
                            [(''blockNumber'', JNumber (real (blk_number b))),
                             (''baseFeePerGas'', opt_toString (blk_baseFeePerGas b)),
                             (''gasUsed'', JString (bigint_toString (blk_gasUsed b))),
                             (''gasLimit'', JString (bigint_toString (blk_gasLimit b))),
                             (''utilization'', JNumber (of_int u))]])))
      else retT history)"
  by pat_completeness auto

termination
  by (relation "measure (\<lambda>(provider, blockCount, currentBlock, i, history).
                  nat \<lceil>blockCount\<rceil> - i)")
     (auto simp: zless_nat_eq_int_zless less_ceiling_iff intro!: diff_less_mono2)

declare gas_history_loop.simps [simp del]

definition gas_getGasHistory :: "Provider \<Rightarrow> GasParams \<Rightarrow> IDataObject traced" where
  "gas_getGasHistory provider params =
     bindT (call CGetBlockNumber (p_getBlockNumber provider 0)) (\<lambda>currentBlock.
     bindT (gas_history_loop provider (gp_blockCount params) currentBlock 0 []) (\<lambda>history.
       retT [(''history'', JArray history),
             (''blockCount'', JNumber (real (length history)))]))"

definition gas_calculateZKProofFee :: "Provider \<Rightarrow> IDataObject traced" where
  "gas_calculateZKProofFee provider =
     bindT (call CGetFeeData (p_getFeeData provider)) (\<lambda>feeData.
       retT [(''message'',
                JString ''ZK proof fees are included in the L1 data fee component''),
             (''currentGasPrice'', opt_toString (fd_gasPrice feeData)),
             (''note'',
                JString ''Proof generation costs are amortized across all transactions in a batch'')])"


text \<open>The \<open>switch (operation)\<close> of the gas resource.\<close>

definition gas_switch ::
  "Ethers \<Rightarrow> Provider \<Rightarrow> GasParams \<Rightarrow> string \<Rightarrow> IDataObject traced" where
  "gas_switch lib provider params operation =
     (if operation = ''getGasPrice'' then gas_getGasPrice lib provider
      else if operation = ''getMaxFeePerGas'' then gas_getMaxFeePerGas lib provider
      else if operation = ''getMaxPriorityFee'' then gas_getMaxPriorityFee lib provider
      else if operation = ''estimateGas'' then gas_estimateGas lib provider params
      else if operation = ''getL1DataFee'' then gas_getL1DataFee lib provider params
      else if operation = ''getL2ExecutionFee'' then gas_getL2ExecutionFee lib provider
      else if operation = ''getTotalFeeEstimate''
        then gas_getTotalFeeEstimate lib provider params
      else if operation = ''getGasOracle'' then gas_getGasOracle provider
      else if operation = ''getGasHistory'' then gas_getGasHistory provider params
      else if operation = ''calculateZKProofFee'' then gas_calculateZKProofFee provider
      else liftT (Inl (Error (''Unknown operation: '' @ operation))))"

text \<open>\<open>execute\<close> of the gas resource.  \<open>client\<close> is the outcome of
  \<open>createScrollClient\<close>, which throws on an unusable network configuration.\<close>

definition gas_execute ::
  "Ethers \<Rightarrow> error + Provider \<Rightarrow> GasParams \<Rightarrow> nat \<Rightarrow> string \<Rightarrow>
   INodeExecutionData list traced" where
  "gas_execute lib client params index operation =
     bindT (liftT client) (\<lambda>provider.
     bindT (gas_switch lib provider params operation) (\<lambda>result.
       retT [\<lparr>item_json = result, item_pairedItem = Some index\<rparr>]))"

subsection \<open>The analytics resource\<close>









definition analytics_operations :: "string list" where
  "analytics_operations = [''getGasStats'', ''getNetworkStats'', ''getTPS'']"



section \<open>Scroll.node.ts: Scroll.execute\<close>

definition resources :: "string list" where
  "resources =
     [''account'', ''transaction'', ''token'', ''nft'', ''contract'', ''block'', ''event'',
      ''bridge'', ''batch'', ''rollup'', ''gas'', ''defi'', ''sessionKeys'',
      ''accountAbstraction'', ''multicall'', ''canvas'', ''analytics'', ''subgraph'',
      ''utility'']"

text \<open>\<open>modules r\<close> is the \<open>execute\<close> function of resource module \<open>r\<close>, applied to the item
  index and the operation.  The \<open>switch (resource)\<close> has one case per name in
  \<open>resources\<close>, each calling that module, and a default that throws.\<close>

type_synonym resource_execute = "nat \<Rightarrow> string \<Rightarrow> error + INodeExecutionData list"

definition dispatch_resource ::
  "(string \<Rightarrow> resource_execute) \<Rightarrow> string \<Rightarrow> nat \<Rightarrow> string \<Rightarrow>
   error + INodeExecutionData list" where
  "dispatch_resource modules resource i operation =
     (if resource \<in> set resources then modules resource i operation
      else Inl (Error (''Unknown resource: '' @ resource)))"

definition error_item :: "error \<Rightarrow> nat \<Rightarrow> INodeExecutionData" where
  "error_item e i =
     \<lparr>item_json = [(''error'', JString (message e))], item_pairedItem = Some i\<rparr>"

text \<open>The body of \<open>for (let i = 0; i < items.length; i++)\<close>, over the indices still to be
  processed, with \<open>returnData\<close> as accumulated so far.\<close>

fun execute_items ::
  "(nat \<Rightarrow> error + INodeExecutionData list) \<Rightarrow> bool \<Rightarrow> nat list \<Rightarrow>
   INodeExecutionData list \<Rightarrow> error + INodeExecutionData list" where
  "execute_items run continueOnFail [] returnData = Inr returnData"
| "execute_items run continueOnFail (i # rest) returnData =
     (case run i of
        Inr result \<Rightarrow> execute_items run continueOnFail rest (returnData @ result)
      | Inl e \<Rightarrow>
          if continueOnFail
          then execute_items run continueOnFail rest (returnData @ [error_item e i])
          else Inl e)"

definition Scroll_execute ::
  "(string \<Rightarrow> resource_execute) \<Rightarrow> bool \<Rightarrow> nat \<Rightarrow> string \<Rightarrow> string \<Rightarrow>
   error + INodeExecutionData list list" where
  "Scroll_execute modules continueOnFail items_length resource operation =
     bindE (execute_items (\<lambda>i. dispatch_resource modules resource i operation)
              continueOnFail [0..<items_length] [])
       (\<lambda>returnData. Inr [returnData])"

section \<open>ScrollTrigger.node.ts: the polling trigger\<close>

text \<open>The (name, value) pairs of the \<open>triggerType\<close> option list.\<close>

definition triggerType_options :: "(string \<times> string) list" where
  "triggerType_options =
     [(''New Block'', ''newBlock''),
      (''Block Finalized'', ''blockFinalized''),
      (''Transaction Confirmed'', ''transactionConfirmed''),
      (''Token Transfer'', ''tokenTransfer''),
      (''NFT Transfer'', ''nftTransfer''),
      (''Contract Event'', ''contractEvent''),
      (''Address Activity'', ''addressActivity''),
      (''Bridge Deposit'', ''bridgeDeposit''),
      (''Bridge Withdrawal'', ''bridgeWithdrawal''),
      (''Large Transaction'', ''largeTransaction''),
      (''Canvas Badge Minted'', ''canvasBadgeMinted'')]"

record TriggerParams =
  tp_triggerType :: string
  tp_blockInterval :: number
  tp_transactionHash :: string
  tp_confirmations :: number
  tp_tokenAddress :: string
  tp_tokenFilterBy :: string
  tp_tokenFromAddress :: string
  tp_tokenToAddress :: string
  tp_nftAddress :: string
  tp_contractAddress :: string
  tp_eventSignature :: string
  tp_watchAddress :: string
  tp_minValue :: number
  tp_largeTransactionAddress :: string
  tp_badgeContract :: string
  tp_badgeRecipient :: string

text \<open>The workflow static data of the node: the cursors that \<open>poll\<close> persists.  A field
  is \<open>None\<close> until \<open>poll\<close> first writes it.\<close>

record StaticData =
  sd_lastBlock :: "nat option"
  sd_lastFinalized :: "nat option"
  sd_lastNonce :: "nat option"
  sd_triggered :: "bool option"

text \<open>How a \<open>case\<close> of the switch ends: the early \<open>return null\<close> of \<open>newBlock\<close>, or
  \<open>break\<close> with the events pushed so far.\<close>

datatype poll_exit = ReturnNull | Break "INodeExecutionData list"

type_synonym poll_case = "error + poll_exit \<times> StaticData"

definition event :: "IDataObject \<Rightarrow> INodeExecutionData" where
  "event j = \<lparr>item_json = j, item_pairedItem = None\<rparr>"

definition opt_string :: "string option \<Rightarrow> JsonValue" where
  "opt_string x = (case x of None \<Rightarrow> JNull | Some v \<Rightarrow> JString v)"

fun mapE :: "('a \<Rightarrow> error + 'b) \<Rightarrow> 'a list \<Rightarrow> error + 'b list" where
  "mapE f [] = Inr []"
| "mapE f (x # xs) = bindE (f x) (\<lambda>y. bindE (mapE f xs) (\<lambda>ys. Inr (y # ys)))"

definition poll_newBlock :: "TriggerParams \<Rightarrow> Provider \<Rightarrow> StaticData \<Rightarrow> poll_case" where
  "poll_newBlock params provider s =
     (let blockInterval = tp_blockInterval params;
          lastBlock = or_else (sd_lastBlock s) 0
      in bindE (p_getBlockNumber provider 0) (\<lambda>currentBlock.
           if lastBlock = 0 then Inr (ReturnNull, s\<lparr>sd_lastBlock := Some currentBlock\<rparr>)
           else if real currentBlock \<ge> real lastBlock + blockInterval then
             bindE (p_getBlock provider (BlockNum (real currentBlock)) False) (\<lambda>block.
               Inr (Break (case block of
                             None \<Rightarrow> []
                           | Some b \<Rightarrow>
                               [event
                                  [(''blockNumber'', JNumber (real (blk_number b))),
                                   (''blockHash'', opt_string (blk_hash b)),
                                   (''timestamp'', JNumber (real (blk_timestamp b))),
                                   (''transactionCount'',
                                      JNumber (real (length (blk_transactions b)))),
                                   (''gasUsed'', JString (bigint_toString (blk_gasUsed b))),
                                   (''gasLimit'',
                                      JString (bigint_toString (blk_gasLimit b)))]]),
                    s\<lparr>sd_lastBlock := Some currentBlock\<rparr>))
           else Inr (Break [], s)))"

definition poll_blockFinalized :: "Provider \<Rightarrow> StaticData \<Rightarrow> poll_case" where
  "poll_blockFinalized provider s =
     (let lastFinalized = or_else (sd_lastFinalized s) 0
      in bindE (p_getBlock provider TagFinalized False) (\<lambda>finalizedBlock.
           case finalizedBlock of
             None \<Rightarrow> Inr (Break [], s)
           | Some b \<Rightarrow>
               if blk_number b > lastFinalized then
                 Inr (Break [event
                               [(''blockNumber'', JNumber (real (blk_number b))),
                                (''blockHash'', opt_string (blk_hash b)),
                                (''timestamp'', JNumber (real (blk_timestamp b))),
                                (''status'', JString ''finalized'')]],
                      s\<lparr>sd_lastFinalized := Some (blk_number b)\<rparr>)
               else Inr (Break [], s)))"

definition poll_transactionConfirmed ::
  "TriggerParams \<Rightarrow> Provider \<Rightarrow> StaticData \<Rightarrow> poll_case" where
  "poll_transactionConfirmed params provider s =
     (let txHash = tp_transactionHash params;
          requiredConfirmations = tp_confirmations params;
          alreadyTriggered = (sd_triggered s = Some True)
      in if \<not> alreadyTriggered \<and> truthy txHash then
           bindE (p_getTransactionReceipt provider txHash) (\<lambda>receipt.
             case receipt of
               None \<Rightarrow> Inr (Break [], s)
             | Some rc \<Rightarrow>
                 bindE (p_getBlockNumber provider 0) (\<lambda>currentBlock.
                   let confirmations = real currentBlock - real (rc_blockNumber rc)
                   in if confirmations \<ge> requiredConfirmations then
                        Inr (Break [event
                                      [(''transactionHash'', JString txHash),
                                       (''blockNumber'', JNumber (real (rc_blockNumber rc))),
                                       (''status'',
                                          (case rc_status rc of
                                             None \<Rightarrow> JNull
                                           | Some st \<Rightarrow> JNumber (real st))),
                                       (''confirmations'', JNumber confirmations),
                                       (''gasUsed'',
                                          JString (bigint_toString (rc_gasUsed rc)))]],
                             s\<lparr>sd_triggered := Some True\<rparr>)
                      else Inr (Break [], s)))
         else Inr (Break [], s))"

text \<open>\<open>const lastBlock = (staticData.lastBlock as number) || await getBlockNumber();
  const currentBlock = await getBlockNumber();\<close>  Without a stored cursor the provider
  is asked twice.\<close>

definition read_block_window :: "Provider \<Rightarrow> StaticData \<Rightarrow> error + nat \<times> nat" where
  "read_block_window provider s =
     (if or_else (sd_lastBlock s) 0 \<noteq> 0 then
        bindE (p_getBlockNumber provider 0) (\<lambda>currentBlock.
          Inr (or_else (sd_lastBlock s) 0, currentBlock))
      else
        bindE (p_getBlockNumber provider 0) (\<lambda>lastBlock.
        bindE (p_getBlockNumber provider 1) (\<lambda>currentBlock.
          Inr (lastBlock, currentBlock))))"

text \<open>The shape shared by the log-based cases: when the head is past the cursor, fetch
  the logs of the window \<open>(lastBlock, currentBlock]\<close>, turn each into an event, and move the
  cursor to the head.\<close>

definition poll_logs ::
  "Provider \<Rightarrow> StaticData \<Rightarrow> string option \<Rightarrow> error + string option list \<Rightarrow>
   (Log \<Rightarrow> error + INodeExecutionData) \<Rightarrow> poll_case" where
  "poll_logs provider s address topics mk_event =
     bindE (read_block_window provider s) (\<lambda>(lastBlock, currentBlock).
       if currentBlock > lastBlock then
         bindE topics (\<lambda>tps.
         bindE (p_getLogs provider
                  \<lparr>flt_address = address, flt_topics = tps,
                   flt_fromBlock = lastBlock + 1, flt_toBlock = currentBlock\<rparr>) (\<lambda>logs.
         bindE (mapE mk_event logs) (\<lambda>events.
           Inr (Break events, s\<lparr>sd_lastBlock := Some currentBlock\<rparr>))))
       else Inr (Break [], s))"

text \<open>\<open>ethers.getAddress('0x' + log.topics[k].slice(26))\<close>; a missing topic is a
  TypeError.\<close>

definition topic_address :: "Ethers \<Rightarrow> Log \<Rightarrow> nat \<Rightarrow> error + string" where
  "topic_address lib lg k =
     (case at_index (log_topics lg) k of
        None \<Rightarrow> Inl (Error ''Cannot read properties of undefined'')
      | Some t \<Rightarrow> eth_getAddress lib (''0x'' @ drop 26 t))"

text \<open>\<open>BigInt(log.topics[k])\<close>; \<open>BigInt(undefined)\<close> is a TypeError.\<close>

definition topic_bigint :: "Ethers \<Rightarrow> Log \<Rightarrow> nat \<Rightarrow> error + int" where
  "topic_bigint lib lg k =
     (case at_index (log_topics lg) k of
        None \<Rightarrow> Inl (Error ''Cannot convert undefined to a BigInt'')
      | Some t \<Rightarrow> js_BigInt lib t)"

definition transfer_signature :: string where
  "transfer_signature = ''Transfer(address,address,uint256)''"

definition token_topics :: "Ethers \<Rightarrow> TriggerParams \<Rightarrow> error + string option list" where
  "token_topics lib params =
     (let transferTopic = eth_id lib transfer_signature
      in if tp_tokenFilterBy params = ''from'' then
           bindE (eth_zeroPadValue lib (tp_tokenFromAddress params) 32) (\<lambda>a.
             Inr [Some transferTopic, Some a])
         else if tp_tokenFilterBy params = ''to'' then
           bindE (eth_zeroPadValue lib (tp_tokenToAddress params) 32) (\<lambda>a.
             Inr [Some transferTopic, None, Some a])
         else Inr [Some transferTopic])"

definition token_event :: "Ethers \<Rightarrow> string \<Rightarrow> Log \<Rightarrow> error + INodeExecutionData" where
  "token_event lib tokenAddress lg =
     bindE (topic_address lib lg 1) (\<lambda>from.
     bindE (topic_address lib lg 2) (\<lambda>to.
     bindE (js_BigInt lib (log_data lg)) (\<lambda>v.
       Inr (event [(''tokenAddress'', JString tokenAddress),
                   (''from'', JString from),
                   (''to'', JString to),
                   (''value'', JString (bigint_toString v)),
                   (''blockNumber'', JNumber (real (log_blockNumber lg))),
                   (''transactionHash'', JString (log_transactionHash lg))]))))"

definition poll_tokenTransfer ::
  "Ethers \<Rightarrow> TriggerParams \<Rightarrow> Provider \<Rightarrow> StaticData \<Rightarrow> poll_case" where
  "poll_tokenTransfer lib params provider s =
     poll_logs provider s (Some (tp_tokenAddress params)) (token_topics lib params)
       (token_event lib (tp_tokenAddress params))"

definition nft_event :: "Ethers \<Rightarrow> string \<Rightarrow> Log \<Rightarrow> error + INodeExecutionData" where
  "nft_event lib nftAddress lg =
     bindE (topic_address lib lg 1) (\<lambda>from.
     bindE (topic_address lib lg 2) (\<lambda>to.
     bindE (topic_bigint lib lg 3) (\<lambda>tokenId.
       Inr (event [(''nftAddress'', JString nftAddress),
                   (''from'', JString from),
                   (''to'', JString to),
                   (''tokenId'', JString (bigint_toString tokenId)),
                   (''blockNumber'', JNumber (real (log_blockNumber lg))),
                   (''transactionHash'', JString (log_transactionHash lg))]))))"

definition poll_nftTransfer ::
  "Ethers \<Rightarrow> TriggerParams \<Rightarrow> Provider \<Rightarrow> StaticData \<Rightarrow> poll_case" where
  "poll_nftTransfer lib params provider s =
     poll_logs provider s (Some (tp_nftAddress params))
       (Inr [Some (eth_id lib transfer_signature)])
       (nft_event lib (tp_nftAddress params))"

definition contract_event :: "string \<Rightarrow> string \<Rightarrow> Log \<Rightarrow> error + INodeExecutionData" where
  "contract_event contractAddress eventSignature lg =
     Inr (event [(''contractAddress'', JString contractAddress),
                 (''eventSignature'', JString eventSignature),
                 (''topics'', JArray (map JString (log_topics lg))),
                 (''data'', JString (log_data lg)),
                 (''blockNumber'', JNumber (real (log_blockNumber lg))),
                 (''transactionHash'', JString (log_transactionHash lg))])"

definition poll_contractEvent ::
  "Ethers \<Rightarrow> TriggerParams \<Rightarrow> Provider \<Rightarrow> StaticData \<Rightarrow> poll_case" where
  "poll_contractEvent lib params provider s =
     poll_logs provider s (Some (tp_contractAddress params))
       (Inr [Some (eth_id lib (tp_eventSignature params))])
       (contract_event (tp_contractAddress params) (tp_eventSignature params))"

definition poll_addressActivity ::
  "Ethers \<Rightarrow> TriggerParams \<Rightarrow> Provider \<Rightarrow> StaticData \<Rightarrow> poll_case" where
  "poll_addressActivity lib params provider s =
     (let watchAddress = tp_watchAddress params;
          lastNonce = or_else (sd_lastNonce s) 0
      in bindE (p_getTransactionCount provider watchAddress) (\<lambda>currentNonce.
           if currentNonce > lastNonce \<or> lastNonce = 0 then
             bindE (p_getBalance provider watchAddress) (\<lambda>balance.
               Inr (Break [event
                             [(''address'', JString watchAddress),
                              (''nonce'', JNumber (real currentNonce)),
                              (''previousNonce'', JNumber (real lastNonce)),
                              (''balance'', JString (eth_formatEther lib balance)),
                              (''balanceWei'', JString (bigint_toString balance))]],
                    s\<lparr>sd_lastNonce := Some currentNonce\<rparr>))
           else Inr (Break [], s)))"

text \<open>The events of one block in the \<open>largeTransaction\<close> case: the prefetched
  transactions whose value, read as a float of ether, reaches \<open>minValue\<close> and that touch
  the optional filter address.\<close>

definition large_tx_matches :: "Ethers \<Rightarrow> TriggerParams \<Rightarrow> TransactionResponse \<Rightarrow> bool" where
  "large_tx_matches lib params tx =
     (let watchAddress = tp_largeTransactionAddress params;
          v = js_parseFloat lib (eth_formatEther lib (txr_value tx))
      in v \<ge> tp_minValue params \<and>
         (\<not> truthy watchAddress \<or>
          js_toLowerCase lib (txr_from tx) = js_toLowerCase lib watchAddress \<or>
          (case txr_to tx of
             None \<Rightarrow> False
           | Some to \<Rightarrow> js_toLowerCase lib to = js_toLowerCase lib watchAddress)))"

definition large_tx_event :: "Ethers \<Rightarrow> nat \<Rightarrow> TransactionResponse \<Rightarrow> INodeExecutionData" where
  "large_tx_event lib blockNum tx =
     event [(''transactionHash'', JString (txr_hash tx)),
            (''from'', JString (txr_from tx)),
            (''to'', opt_string (txr_to tx)),
            (''value'', JString (eth_formatEther lib (txr_value tx))),
            (''valueWei'', JString (bigint_toString (txr_value tx))),
            (''blockNumber'', JNumber (real blockNum))]"

definition large_block_events ::
  "Ethers \<Rightarrow> TriggerParams \<Rightarrow> Provider \<Rightarrow> nat \<Rightarrow> error + INodeExecutionData list" where
  "large_block_events lib params provider blockNum =
     bindE (p_getBlock provider (BlockNum (real blockNum)) True) (\<lambda>block.
       case block of
         None \<Rightarrow> Inr []
       | Some b \<Rightarrow>
           Inr (map (large_tx_event lib blockNum)
                  (filter (large_tx_matches lib params) (blk_prefetchedTransactions b))))"

text \<open>\<open>for (blockNum = lastBlock + 1; blockNum <= Math.min(currentBlock, lastBlock + 5);
  blockNum++)\<close>: at most five blocks are scanned, and the cursor still moves to the
  head.\<close>

definition poll_largeTransaction ::
  "Ethers \<Rightarrow> TriggerParams \<Rightarrow> Provider \<Rightarrow> StaticData \<Rightarrow> poll_case" where
  "poll_largeTransaction lib params provider s =
     bindE (read_block_window provider s) (\<lambda>(lastBlock, currentBlock).
       if currentBlock > lastBlock then
         bindE (mapE (large_block_events lib params provider)
                  [lastBlock + 1 ..< Suc (min currentBlock (lastBlock + 5))]) (\<lambda>per_block.
           Inr (Break (concat per_block), s\<lparr>sd_lastBlock := Some currentBlock\<rparr>))
       else Inr (Break [], s))"

definition bridge_event :: "string \<Rightarrow> Log \<Rightarrow> error + INodeExecutionData" where
  "bridge_event triggerType lg =
     Inr (event [(''type'', JString triggerType),
                 (''data'', JString (log_data lg)),
                 (''blockNumber'', JNumber (real (log_blockNumber lg))),
                 (''transactionHash'', JString (log_transactionHash lg)),
                 (''address'', JString (log_address lg))])"

definition poll_bridge ::
  "Ethers \<Rightarrow> TriggerParams \<Rightarrow> Provider \<Rightarrow> StaticData \<Rightarrow> poll_case" where
  "poll_bridge lib params provider s =
     poll_logs provider s None
       (Inr [Some (if tp_triggerType params = ''bridgeDeposit''
                   then eth_id lib ''DepositETH(address,address,uint256,bytes)''
                   else eth_id lib ''WithdrawETH(address,address,uint256,bytes)'')])
       (bridge_event (tp_triggerType params))"

definition ZeroAddress :: string where
  "ZeroAddress = ''0x0000000000000000000000000000000000000000''"

definition badge_topics :: "Ethers \<Rightarrow> TriggerParams \<Rightarrow> error + string option list" where
  "badge_topics lib params =
     bindE (eth_zeroPadValue lib ZeroAddress 32) (\<lambda>zero.
       if truthy (tp_badgeRecipient params) then
         bindE (eth_zeroPadValue lib (tp_badgeRecipient params) 32) (\<lambda>r.
           Inr [Some (eth_id lib transfer_signature), Some zero, Some r])
       else Inr [Some (eth_id lib transfer_signature), Some zero])"

definition badge_event :: "Ethers \<Rightarrow> Log \<Rightarrow> error + INodeExecutionData" where
  "badge_event lib lg =
     bindE (topic_address lib lg 2) (\<lambda>to.
     bindE (topic_bigint lib lg 3) (\<lambda>tokenId.
       Inr (event [(''type'', JString ''canvasBadgeMinted''),
                   (''badgeContract'', JString (log_address lg)),
                   (''recipient'', JString to),
                   (''tokenId'', JString (bigint_toString tokenId)),
                   (''blockNumber'', JNumber (real (log_blockNumber lg))),
                   (''transactionHash'', JString (log_transactionHash lg))])))"

definition poll_canvasBadgeMinted ::
  "Ethers \<Rightarrow> TriggerParams \<Rightarrow> Provider \<Rightarrow> StaticData \<Rightarrow> poll_case" where
  "poll_canvasBadgeMinted lib params provider s =
     poll_logs provider s
       (if truthy (tp_badgeContract params) then Some (tp_badgeContract params) else None)
       (badge_topics lib params) (badge_event lib)"

text \<open>The \<open>switch (triggerType)\<close>; it has no default, so any other value leaves
  \<open>events\<close> empty.\<close>

definition poll_switch ::
  "Ethers \<Rightarrow> TriggerParams \<Rightarrow> Provider \<Rightarrow> StaticData \<Rightarrow> poll_case" where
  "poll_switch lib params provider s =
     (let triggerType = tp_triggerType params
      in if triggerType = ''newBlock'' then poll_newBlock params provider s
         else if triggerType = ''blockFinalized'' then poll_blockFinalized provider s
         else if triggerType = ''transactionConfirmed''
           then poll_transactionConfirmed params provider s
         else if triggerType = ''tokenTransfer'' then poll_tokenTransfer lib params provider s
         else if triggerType = ''nftTransfer'' then poll_nftTransfer lib params provider s
         else if triggerType = ''contractEvent'' then poll_contractEvent lib params provider s
         else if triggerType = ''addressActivity''
           then poll_addressActivity lib params provider s
         else if triggerType = ''largeTransaction''
           then poll_largeTransaction lib params provider s
         else if triggerType = ''bridgeDeposit'' \<or> triggerType = ''bridgeWithdrawal''
           then poll_bridge lib params provider s
         else if triggerType = ''canvasBadgeMinted''
           then poll_canvasBadgeMinted lib params provider s
         else Inr (Break [], s))"

text \<open>\<open>poll\<close>: \<open>client\<close> is the outcome of \<open>createScrollClient\<close>.  The result is \<open>null\<close>
  (\<open>None\<close>) or \<open>[events]\<close>, next to the static data as the invocation leaves it.  Every
  case writes the static data after its last call that may throw, so a rejected poll
  leaves the static data as it was.\<close>

definition poll ::
  "Ethers \<Rightarrow> TriggerParams \<Rightarrow> error + Provider \<Rightarrow> StaticData \<Rightarrow>
   error + INodeExecutionData list list option \<times> StaticData" where
  "poll lib params client s =
     bindE client (\<lambda>provider.
     bindE (poll_switch lib params provider s) (\<lambda>(exit, s').
       case exit of
         ReturnNull \<Rightarrow> Inr (None, s')
       | Break events \<Rightarrow> if events = [] then Inr (None, s') else Inr (Some [events], s')))"

text \<open>Successive poll invocations: each step has its parameters and the provider's
  answers during that invocation; a rejected poll leaves the static data unchanged.\<close>

fun run_polls ::
  "Ethers \<Rightarrow> (TriggerParams \<times> (error + Provider)) list \<Rightarrow> StaticData \<Rightarrow> StaticData" where
  "run_polls lib [] s = s"
| "run_polls lib ((params, client) # rest) s =
     run_polls lib rest
       (case poll lib params client s of
          Inl e \<Rightarrow> s
        | Inr (result, s') \<Rightarrow> s')"

text \<open>The three numeric cursors, each read the way \<open>poll\<close> reads it
  (\<open>(staticData.x as number) || 0\<close>), do not decrease from \<open>s\<close> to \<open>s'\<close>.\<close>

definition cursors_le :: "StaticData \<Rightarrow> StaticData \<Rightarrow> bool" where
  "cursors_le s s' =
     (or_else (sd_lastBlock s) 0 \<le> or_else (sd_lastBlock s') 0 \<and>
      or_else (sd_lastFinalized s) 0 \<le> or_else (sd_lastFinalized s') 0 \<and>
      or_else (sd_lastNonce s) 0 \<le> or_else (sd_lastNonce s') 0)"

text \<open>The change of chain state as C3 words it: the chain head advanced past the stored
  block cursor (for the finalized head, past the stored finalized cursor), the watched
  address's nonce increased, or the provider has logs in a window that starts right
  after the stored block cursor.\<close>

definition observed_change :: "TriggerParams \<Rightarrow> Provider \<Rightarrow> StaticData \<Rightarrow> bool" where
  "observed_change params provider s =
     ((\<exists>k currentBlock. p_getBlockNumber provider k = Inr currentBlock \<and>
         currentBlock > or_else (sd_lastBlock s) 0) \<or>
      (\<exists>b. p_getBlock provider TagFinalized False = Inr (Some b) \<and>
         blk_number b > or_else (sd_lastFinalized s) 0) \<or>
      (\<exists>currentNonce. p_getTransactionCount provider (tp_watchAddress params) = Inr currentNonce \<and>
         currentNonce > or_else (sd_lastNonce s) 0) \<or>
      (\<exists>fl lg logs. p_getLogs provider fl = Inr (lg # logs)))"

section \<open>Example collaborators\<close>

text \<open>A committed, not yet finalized batch on a chain whose root lookups revert, and a
  finalize event whose data decodes.\<close>

definition example_chain :: ScrollChain where
  "example_chain =
     \<lparr>sc_isBatchFinalized = (\<lambda>i. Inr False),
      sc_committedBatches = (\<lambda>i. Inr ''0xabc''),
      sc_finalizedStateRoots = (\<lambda>i. Inl (Error ''revert'')),
      sc_withdrawRoots = (\<lambda>i. Inl (Error ''revert''))\<rparr>"

definition example_log :: Log where
  "example_log =
     \<lparr>log_address = ''0xa1'', log_topics = [''0xt0'', ''0x07'', ''0xh'', ''0x2a''],
      log_data = ''0xd'', log_blockNumber = 12, log_transactionHash = ''0xtx''\<rparr>"

definition example_lib :: Ethers where
  "example_lib =
     \<lparr>eth_isAddress = (\<lambda>a. Inr (length a = 42)),
      eth_getAddress = (\<lambda>a. Inr a),
      eth_formatEther = (\<lambda>v. bigint_toString v @ '' wei''),
      eth_formatUnits_gwei = (\<lambda>v. bigint_toString v @ '' wei''),
      eth_parseEther = (\<lambda>s. Inr 0),
      eth_id = (\<lambda>s. ''#'' @ s),
      eth_zeroPadValue = (\<lambda>s n. Inr s),
      js_number_toString = (\<lambda>x. ''0''),
      js_BigInt = (\<lambda>s. Inr (int (length s))),
      js_parseFloat = (\<lambda>s. real (length s)),
      js_toFixed2 = (\<lambda>x. ''0.00''),
      js_toLowerCase = (\<lambda>s. s)\<rparr>"

definition example_block :: Block where
  "example_block =
     \<lparr>blk_number = 100, blk_hash = Some ''0xb100'', blk_timestamp = 1700000000,
      blk_transactions = [''0xt1'', ''0xt2''], blk_gasUsed = 5000000,
      blk_gasLimit = 10000000, blk_baseFeePerGas = Some 7,
      blk_prefetchedTransactions =
        [\<lparr>txr_hash = ''0xt1'', txr_from = ''0xf'', txr_to = Some ''0xd'',
          txr_value = 3\<rparr>]\<rparr>"

definition example_provider :: Provider where
  "example_provider =
     \<lparr>p_getBlockNumber = (\<lambda>k. Inr 100),
      p_getBlock = (\<lambda>tag prefetch. Inr (Some example_block)),
      p_getTransactionReceipt =
        (\<lambda>h. Inr (Some \<lparr>rc_blockNumber = 90, rc_status = Some 1, rc_gasUsed = 21000\<rparr>)),
      p_getLogs = (\<lambda>f. Inr [example_log]),
      p_getTransactionCount = (\<lambda>a. Inr 0),
      p_getBalance = (\<lambda>a. Inr 0),
      p_getFeeData =
        Inr \<lparr>fd_gasPrice = Some 2, fd_maxFeePerGas = Some 3,
             fd_maxPriorityFeePerGas = None\<rparr>,
      p_estimateGas = (\<lambda>tx. Inr 21000),
      p_getNetwork = Inr 534352,
      p_call_getL1Fee = (\<lambda>a d. Inr 500),
      p_call_l1BaseFee = (\<lambda>a. Inr 1),
      p_call_overhead = (\<lambda>a. Inr 2),
      p_call_scalar = (\<lambda>a. Inr 3)\<rparr>"

definition example_gas_params :: GasParams where
  "example_gas_params =
     \<lparr>gp_toAddress = [], gp_value = 0, gp_data = ''0x'', gp_blockCount = 10\<rparr>"


definition example_modules :: "string \<Rightarrow> resource_execute" where
  "example_modules r i operation =
     (if i = 1 then Inl (Error ''boom'')
      else Inr [\<lparr>item_json = [(''resource'', JString r)], item_pairedItem = Some i\<rparr>])"

definition example_trigger_params :: "string \<Rightarrow> TriggerParams" where
  "example_trigger_params t =
     \<lparr>tp_triggerType = t, tp_blockInterval = 1, tp_transactionHash = ''0xtx'',
      tp_confirmations = 1, tp_tokenAddress = ''0xtoken'', tp_tokenFilterBy = ''any'',
      tp_tokenFromAddress = [], tp_tokenToAddress = [], tp_nftAddress = ''0xnft'',
      tp_contractAddress = ''0xc'', tp_eventSignature = ''Ping()'',
      tp_watchAddress = ''0xw'', tp_minValue = 1, tp_largeTransactionAddress = [],
      tp_badgeContract = [], tp_badgeRecipient = []\<rparr>"

definition example_state :: StaticData where
  "example_state =
     \<lparr>sd_lastBlock = Some 50, sd_lastFinalized = Some 50, sd_lastNonce = Some 0,
      sd_triggered = None\<rparr>"

text \<open>A chain on which nothing happens: the head stays at block 100, the watched
  address has never sent a transaction, and there are no logs.\<close>

definition quiet_provider :: Provider where
  "quiet_provider =
     example_provider
       \<lparr>p_getBlock := (\<lambda>tag prefetch. Inr None), p_getLogs := (\<lambda>f. Inr [])\<rparr>"

definition quiet_state :: StaticData where
  "quiet_state =
     \<lparr>sd_lastBlock = Some 100, sd_lastFinalized = Some 100, sd_lastNonce = Some 0,
      sd_triggered = None\<rparr>"

section \<open>Verified properties\<close>

subsection \<open>Batch status classification\<close>

text \<open>C2: for all batch indices, \<open>getBatchStatus\<close> returns FINALIZED exactly when
  \<open>batchIndex \<le> lastFinalizedIndex\<close>, COMMITTED exactly when
  \<open>lastFinalizedIndex < batchIndex \<le> lastCommittedIndex\<close>, and PENDING otherwise; so it
  agrees with \<open>isBatchFinalized\<close> and \<open>isBatchCommitted\<close> on every input.  The statement is
  over all numbers; the integers are the values \<open>of_int k\<close>.\<close>

theorem getBatchStatus_classifies:
  "(getBatchStatus b f c = FINALIZED) = (b \<le> f) \<and>
   (getBatchStatus b f c = COMMITTED) = (f < b \<and> b \<le> c) \<and>
   (getBatchStatus b f c = PENDING) = (\<not> b \<le> f \<and> \<not> (f < b \<and> b \<le> c)) \<and>
   (getBatchStatus b f c = FINALIZED) = isBatchFinalized b f \<and>
   (getBatchStatus b f c = COMMITTED) = (\<not> isBatchFinalized b f \<and> isBatchCommitted b c) \<and>
   (getBatchStatus b f c = PENDING) = (\<not> isBatchFinalized b f \<and> \<not> isBatchCommitted b c)"
  by (auto simp: getBatchStatus_def isBatchFinalized_def isBatchCommitted_def)

subsection \<open>Bridge fee\<close>

lemma bigint_quot_nonneg: "0 \<le> a \<Longrightarrow> 0 < b \<Longrightarrow> bigint_quot a b = a div b"
  by (cases "a = 0") (simp_all add: bigint_quot_def)

text \<open>C5: for non-negative \<open>gasLimit\<close> and \<open>l1GasPrice\<close>, \<open>calculateBridgeFee\<close> is
  \<open>floor (gasLimit * l1GasPrice * 120 / 100)\<close> for a deposit and
  \<open>floor (gasLimit * l1GasPrice * 150 / 100)\<close> for a withdrawal, in exact integer
  arithmetic, and the withdrawal fee is at least the deposit fee.\<close>

theorem calculateBridgeFee_floor:
  assumes "0 \<le> gasLimit" and "0 \<le> l1GasPrice"
  shows "calculateBridgeFee gasLimit l1GasPrice True =
           \<lfloor>(of_int (gasLimit * l1GasPrice * 120) / 100 :: real)\<rfloor> \<and>
         calculateBridgeFee gasLimit l1GasPrice True = gasLimit * l1GasPrice * 120 div 100 \<and>
         calculateBridgeFee gasLimit l1GasPrice False =
           \<lfloor>(of_int (gasLimit * l1GasPrice * 150) / 100 :: real)\<rfloor> \<and>
         calculateBridgeFee gasLimit l1GasPrice False = gasLimit * l1GasPrice * 150 div 100 \<and>
         calculateBridgeFee gasLimit l1GasPrice True
           \<le> calculateBridgeFee gasLimit l1GasPrice False"
proof -
  have base: "0 \<le> gasLimit * l1GasPrice" using assms by simp
  have d: "calculateBridgeFee gasLimit l1GasPrice True = gasLimit * l1GasPrice * 120 div 100"
    using base by (simp add: calculateBridgeFee_def bigint_quot_nonneg)
  have w: "calculateBridgeFee gasLimit l1GasPrice False = gasLimit * l1GasPrice * 150 div 100"
    using base by (simp add: calculateBridgeFee_def bigint_quot_nonneg)
  have fl: "\<lfloor>(of_int k / 100 :: real)\<rfloor> = k div 100" for k :: int
    using floor_divide_of_int_eq [of k 100, where ?'a = real]
    by (simp only: of_int_numeral)
  have le: "gasLimit * l1GasPrice * 120 div 100 \<le> gasLimit * l1GasPrice * 150 div 100"
    using base by (intro zdiv_mono1) simp_all
  show ?thesis unfolding d w fl using le by blast
qed

theorem calculateBridgeFee_floor_witness:
  "calculateBridgeFee 21001 3 True = 75603 \<and> calculateBridgeFee 21001 3 False = 94504 \<and>
   calculateBridgeFee 21001 3 True \<le> calculateBridgeFee 21001 3 False"
  using calculateBridgeFee_floor [of 21001 3] by simp

subsection \<open>Gateway encoders\<close>

text \<open>C9: for every recipient, amount and gas limit, \<open>encodeDepositData\<close> and
  \<open>encodeWithdrawalData\<close> return the same encoding (or throw the same error): the two
  functions are extensionally equal, whatever the ABI coder does.\<close>

theorem encodeDepositData_eq_encodeWithdrawalData:
  "encodeDepositData abiCoder_encode recipient amount gasLimit =
   encodeWithdrawalData abiCoder_encode recipient amount gasLimit"
  by (simp add: encodeDepositData_def encodeWithdrawalData_def)

subsection \<open>Unreachable status\<close>

text \<open>C10: no batch classification produces PROVED.  \<open>getBatchStatus\<close> returns one of
  PENDING, COMMITTED, FINALIZED on every input, \<open>BatchClient.getBatchInfo\<close> assigns one
  of the same three whenever it returns, and \<open>parseRollupEvent\<close>, the only other place
  that builds a status, yields COMMITTED or FINALIZED.\<close>

theorem PROVED_unreachable:
  "getBatchStatus b f c \<in> {PENDING, COMMITTED, FINALIZED} \<and>
   getBatchStatus b f c \<noteq> PROVED \<and>
   (\<forall>info. getBatchInfo scrollChain i = Inr info \<longrightarrow>
      bi_status info \<in> {PENDING, COMMITTED, FINALIZED} \<and> bi_status info \<noteq> PROVED) \<and>
   (\<forall>info. parseRollupEvent parseInt16 decode2 lg eventType = Some info \<longrightarrow>
      pb_status info \<in> {COMMITTED, FINALIZED} \<and> pb_status info \<noteq> PROVED)"
proof (intro conjI allI impI)
  show "getBatchStatus b f c \<in> {PENDING, COMMITTED, FINALIZED}"
    by (simp add: getBatchStatus_def)
  show "getBatchStatus b f c \<noteq> PROVED"
    by (simp add: getBatchStatus_def)
next
  fix info assume h: "getBatchInfo scrollChain i = Inr info"
  then have "bi_status info = FINALIZED \<or> bi_status info = COMMITTED \<or> bi_status info = PENDING"
    by (auto simp: getBatchInfo_def bindE_def Let_def split: sum.splits if_splits)
  then show "bi_status info \<in> {PENDING, COMMITTED, FINALIZED}" and "bi_status info \<noteq> PROVED"
    by auto
next
  fix info assume h: "parseRollupEvent parseInt16 decode2 lg eventType = Some info"
  then have "pb_status info = COMMITTED \<or> pb_status info = FINALIZED"
    by (auto simp: parseRollupEvent_def Let_def split: RollupEventType.splits sum.splits)
  then show "pb_status info \<in> {COMMITTED, FINALIZED}" and "pb_status info \<noteq> PROVED"
    by auto
qed

theorem PROVED_unreachable_witness:
  "getBatchInfo example_chain 7 =
     Inr \<lparr>bi_index = 7, bi_hash = ''0xabc'', bi_status = COMMITTED,
          bi_stateRoot = None, bi_withdrawRoot = None\<rparr> \<and>
   bi_status \<lparr>bi_index = 7, bi_hash = ''0xabc'', bi_status = COMMITTED,
          bi_stateRoot = None, bi_withdrawRoot = None\<rparr> \<noteq> PROVED \<and>
   parseRollupEvent (\<lambda>t. Some 7) (\<lambda>d. Inr (''0xs'', ''0xw'')) example_log Finalize =
     Some \<lparr>pb_index = Some 7, pb_hash = Some ''0xh'', pb_status = FINALIZED,
           pb_l1TxHash = ''0xtx'', pb_stateRoot = Some ''0xs'',
           pb_withdrawRoot = Some ''0xw''\<rparr> \<and>
   getBatchStatus 5 3 8 = COMMITTED"
proof -
  have a: "getBatchInfo example_chain 7 =
     Inr \<lparr>bi_index = 7, bi_hash = ''0xabc'', bi_status = COMMITTED,
          bi_stateRoot = None, bi_withdrawRoot = None\<rparr>"
    by (simp add: getBatchInfo_def example_chain_def bindE_def catch_default_def ZeroHash_def)
  have b: "parseRollupEvent (\<lambda>t. Some 7) (\<lambda>d. Inr (''0xs'', ''0xw'')) example_log Finalize =
     Some \<lparr>pb_index = Some 7, pb_hash = Some ''0xh'', pb_status = FINALIZED,
           pb_l1TxHash = ''0xtx'', pb_stateRoot = Some ''0xs'',
           pb_withdrawRoot = Some ''0xw''\<rparr>"
    by (simp add: parseRollupEvent_def example_log_def at_index_def)
  have c: "getBatchStatus 5 3 8 = COMMITTED"
    by (simp add: getBatchStatus_def)
  show ?thesis
    using PROVED_unreachable [of 5 3 8 example_chain 7 "\<lambda>t. Some 7"
        "\<lambda>d. Inr (''0xs'', ''0xw'')" example_log Finalize] a b c
    by simp
qed

subsection \<open>Rendering of bigints\<close>

text \<open>\<open>toString\<close> on bigints is injective: two results that render alike are the same
  number.\<close>

lemma digit_cases: "d < 10 \<Longrightarrow> d \<in> {0, 1, 2, 3, 4, 5, 6, 7, 8, 9 :: nat}"
  by auto

lemma digit_value_digit: "d < 10 \<Longrightarrow> digit_value (''0123456789'' ! d) = d"
  using digit_cases [of d] by (auto simp: digit_value_def)

lemma digit_not_minus: "d < 10 \<Longrightarrow> ''0123456789'' ! d \<noteq> CHR ''-''"
  using digit_cases [of d] by auto

lemma parse_digits_snoc: "parse_digits (s @ [c]) = 10 * parse_digits s + digit_value c"
  by (simp add: parse_digits_def)

lemma parse_nat_toString: "parse_digits (nat_toString n) = n"
proof (induction n rule: nat_toString.induct)
  case (1 n)
  show ?case
  proof (cases "n < 10")
    case True
    then show ?thesis
      by (simp add: nat_toString.simps [of n] parse_digits_def digit_value_digit)
  next
    case False
    then show ?thesis
      using "1.IH" by (simp add: nat_toString.simps [of n] parse_digits_snoc digit_value_digit)
  qed
qed

lemma nat_toString_nonempty: "nat_toString n \<noteq> []"
  by (simp add: nat_toString.simps [of n])

lemma hd_nat_toString: "hd (nat_toString n) \<noteq> CHR ''-''"
proof (induction n rule: nat_toString.induct)
  case (1 n)
  show ?case
  proof (cases "n < 10")
    case True
    then show ?thesis by (simp add: nat_toString.simps [of n] digit_not_minus)
  next
    case False
    then show ?thesis
      using "1.IH" nat_toString_nonempty [of "n div 10"]
      by (simp add: nat_toString.simps [of n])
  qed
qed

lemma nat_toString_inj: "nat_toString a = nat_toString b \<Longrightarrow> a = b"
  by (metis parse_nat_toString)

lemma bigint_toString_inj:
  assumes "bigint_toString a = bigint_toString b"
  shows "a = b"
proof -
  have neq: "''-'' @ nat_toString m \<noteq> nat_toString n" for m n
    using hd_nat_toString [of n] by (cases "nat_toString n") auto
  show ?thesis
  proof (cases "a < 0"; cases "b < 0")
    assume "a < 0" "b < 0"
    then show ?thesis using assms nat_toString_inj [of "nat (- a)" "nat (- b)"]
      by (simp add: bigint_toString_def)
  next
    assume "a < 0" "\<not> b < 0"
    then show ?thesis using assms neq by (simp add: bigint_toString_def)
  next
    assume "\<not> a < 0" "b < 0"
    then show ?thesis using assms neq [of "nat (- b)" "nat a"] by (simp add: bigint_toString_def)
  next
    assume "\<not> a < 0" "\<not> b < 0"
    then show ?thesis using assms nat_toString_inj [of "nat a" "nat b"]
      by (simp add: bigint_toString_def)
  qed
qed

subsection \<open>Dispatch of the gas resource\<close>

lemma gas_switch_simps:
  "gas_switch lib provider params ''getGasPrice'' = gas_getGasPrice lib provider"
  "gas_switch lib provider params ''getMaxFeePerGas'' = gas_getMaxFeePerGas lib provider"
  "gas_switch lib provider params ''getMaxPriorityFee'' = gas_getMaxPriorityFee lib provider"
  "gas_switch lib provider params ''estimateGas'' = gas_estimateGas lib provider params"
  "gas_switch lib provider params ''getL1DataFee'' = gas_getL1DataFee lib provider params"
  "gas_switch lib provider params ''getL2ExecutionFee'' = gas_getL2ExecutionFee lib provider"
  "gas_switch lib provider params ''getTotalFeeEstimate'' =
     gas_getTotalFeeEstimate lib provider params"
  "gas_switch lib provider params ''getGasOracle'' = gas_getGasOracle provider"
  "gas_switch lib provider params ''getGasHistory'' = gas_getGasHistory provider params"
  "gas_switch lib provider params ''calculateZKProofFee'' = gas_calculateZKProofFee provider"
  by (simp_all add: gas_switch_def)

subsection \<open>Fee composition\<close>

text \<open>C1: the gas resource's \<open>getTotalFeeEstimate\<close> returns exactly when the request
  can be built and the provider answers \<open>estimateGas\<close> and \<open>getFeeData\<close>, also when the
  oracle call fails.  Its \<open>totalFee\<close> is then \<open>l2ExecutionFee + l1DataFee\<close> (each rendered
  by \<open>toString\<close>), where \<open>l2ExecutionFee\<close> is \<open>gasEstimate * gasPrice\<close>, or 0 when the
  provider reports no gas price, and \<open>l1DataFee\<close> is what the oracle's \<open>getL1Fee\<close> returns,
  or 0 when that call fails.  \<open>calculateTotalFee\<close> of the gas utilities returns exactly
  when \<open>estimateGas\<close> and \<open>getFeeData\<close> succeed, for every transaction; its \<open>gasLimit\<close> is
  the provider's estimate with the 20 percent buffer, its \<open>maxFeePerGas\<close> the provider's
  (or the gas price), its \<open>l1DataFee\<close> the oracle's \<open>getL1Fee\<close> answer (0 when the call
  fails or no oracle address or data is given), and
  \<open>totalFee = l2ExecutionFee + l1DataFee\<close> with \<open>l2ExecutionFee = gasLimit * maxFeePerGas\<close>.
  By \<open>bigint_toString_inj\<close> the rendered fields determine the numbers.\<close>

theorem totalFee_composition:
  "(gas_execute lib (Inr provider) params index ''getTotalFeeEstimate'' = (trace, Inr items) \<longleftrightarrow>
     (\<exists>tx gasEstimate feeData.
        gas_build_tx lib params = Inr tx \<and>
        p_estimateGas provider tx = Inr gasEstimate \<and>
        p_getFeeData provider = Inr feeData \<and>
        (let l2ExecutionFee =
               (case fd_gasPrice feeData of
                  None \<Rightarrow> 0
                | Some gasPrice \<Rightarrow> gasEstimate * gasPrice);
             l1DataFee =
               (case p_call_getL1Fee provider L1_GAS_PRICE_ORACLE_ADDRESS
                       (data_or_0x (gp_data params)) of
                  Inl e \<Rightarrow> 0
                | Inr fee \<Rightarrow> fee)
         in trace = [CEstimateGas, CGetFeeData, CGetL1Fee] \<and>
            items =
              [\<lparr>item_json =
                  [(''gasEstimate'', JString (bigint_toString gasEstimate)),
                   (''l2ExecutionFee'', JString (bigint_toString l2ExecutionFee)),
                   (''l1DataFee'', JString (bigint_toString l1DataFee)),
                   (''totalFee'', JString (bigint_toString (l2ExecutionFee + l1DataFee))),
                   (''totalFeeEth'', JString (eth_formatEther lib (l2ExecutionFee + l1DataFee)))],
                item_pairedItem = Some index\<rparr>]))) \<and>
   (calculateTotalFee provider transaction oracleAddress = Inr estimate \<longleftrightarrow>
     (\<exists>gasEstimate feeData.
        p_estimateGas provider transaction = Inr gasEstimate \<and>
        p_getFeeData provider = Inr feeData \<and>
        (let gasLimit = sgn gasEstimate * (\<bar>gasEstimate * 120\<bar> div 100);
             gasPrice = (case fd_gasPrice feeData of None \<Rightarrow> 0 | Some p \<Rightarrow> p);
             maxFeePerGas =
               (case fd_maxFeePerGas feeData of
                  None \<Rightarrow> gasPrice
                | Some m \<Rightarrow> if m = 0 then gasPrice else m);
             maxPriorityFeePerGas =
               (case fd_maxPriorityFeePerGas feeData of None \<Rightarrow> 0 | Some p \<Rightarrow> p);
             l2ExecutionFee = gasLimit * maxFeePerGas;
             l1DataFee =
               (case (oracleAddress, tx_data transaction) of
                  (Some oa, Some d) \<Rightarrow>
                    if oa \<noteq> [] \<and> d \<noteq> [] then
                      (case p_call_getL1Fee provider oa d of Inl e \<Rightarrow> 0 | Inr fee \<Rightarrow> fee)
                    else 0
                | _ \<Rightarrow> 0)
         in estimate =
              \<lparr>ge_gasLimit = gasLimit, ge_gasPrice = gasPrice,
               ge_maxFeePerGas = maxFeePerGas,
               ge_maxPriorityFeePerGas = maxPriorityFeePerGas,
               ge_l1DataFee = l1DataFee, ge_l2ExecutionFee = l2ExecutionFee,
               ge_totalFee = l2ExecutionFee + l1DataFee\<rparr>))) \<and>
   (calculateTotalFee provider transaction oracleAddress = Inr estimate \<longrightarrow>
      ge_totalFee estimate = ge_l2ExecutionFee estimate + ge_l1DataFee estimate \<and>
      ge_l2ExecutionFee estimate = ge_gasLimit estimate * ge_maxFeePerGas estimate)"
  (is "?A \<and> ?B \<and> ?C")
proof (intro conjI)
  show ?A
  proof (cases "gas_build_tx lib params")
    case (Inl e)
    then show ?thesis
      by (simp add: gas_execute_def gas_switch_simps gas_getTotalFeeEstimate_def bindT_def
            liftT_def)
  next
    case tx: (Inr tx)
    show ?thesis
    proof (cases "p_estimateGas provider tx")
      case (Inl e)
      then show ?thesis using tx
        by (simp add: gas_execute_def gas_switch_simps gas_getTotalFeeEstimate_def bindT_def
              liftT_def call_def)
    next
      case g: (Inr g)
      show ?thesis
      proof (cases "p_getFeeData provider")
        case (Inl e)
        then show ?thesis using tx g
          by (simp add: gas_execute_def gas_switch_simps gas_getTotalFeeEstimate_def bindT_def
                liftT_def call_def)
      next
        case fd: (Inr fd)
        have f: "fee_or_zero (fd_gasPrice fd) g =
                 (case fd_gasPrice fd of None \<Rightarrow> 0 | Some gasPrice \<Rightarrow> g * gasPrice)"
          by (simp add: fee_or_zero_def split: option.splits)
        show ?thesis using tx g fd
          by (cases "p_call_getL1Fee provider L1_GAS_PRICE_ORACLE_ADDRESS
                       (data_or_0x (gp_data params))")
             (auto simp: gas_execute_def gas_switch_simps gas_getTotalFeeEstimate_def
                bindT_def liftT_def call_def catchT_def retT_def f Let_def)
      qed
    qed
  qed
  have q: "bigint_quot (g * 120) 100 = sgn g * (\<bar>g * 120\<bar> div 100)" for g :: int
    by (simp add: bigint_quot_def sgn_mult)
  show ?B
  proof (cases "p_estimateGas provider transaction")
    case (Inl e)
    then show ?thesis
      by (simp add: calculateTotalFee_def estimateGas_def bindE_def)
  next
    case g: (Inr g)
    show ?thesis
    proof (cases "p_getFeeData provider")
      case (Inl e)
      then show ?thesis using g
        by (simp add: calculateTotalFee_def estimateGas_def getFeeData_def bindE_def)
    next
      case fd: (Inr fd)
      have l: "(case (oracleAddress, tx_data transaction) of
                  (Some oa, Some d) \<Rightarrow>
                    if truthy oa \<and> truthy d then getL1DataFee provider oa d else 0
                | _ \<Rightarrow> 0) =
               (case (oracleAddress, tx_data transaction) of
                  (Some oa, Some d) \<Rightarrow>
                    if oa \<noteq> [] \<and> d \<noteq> [] then
                      (case p_call_getL1Fee provider oa d of Inl e \<Rightarrow> 0 | Inr fee \<Rightarrow> fee)
                    else 0
                | _ \<Rightarrow> 0)"
        by (simp add: truthy_def getL1DataFee_def split: option.splits sum.splits)
      show ?thesis using g fd
        unfolding calculateTotalFee_def estimateGas_def getFeeData_def l
        by (cases "fd_gasPrice fd"; cases "fd_maxFeePerGas fd";
            cases "fd_maxPriorityFeePerGas fd")
           (auto simp: bindE_def Let_def or_else_def q)
    qed
  qed
  show ?C
    by (auto simp: calculateTotalFee_def bindE_def Let_def split: sum.splits)
qed

theorem totalFee_composition_witness:
  "gas_execute example_lib (Inr example_provider) example_gas_params 0 ''getTotalFeeEstimate'' =
     ([CEstimateGas, CGetFeeData, CGetL1Fee],
      Inr [\<lparr>item_json =
              [(''gasEstimate'', JString ''21000''), (''l2ExecutionFee'', JString ''42000''),
               (''l1DataFee'', JString ''500''), (''totalFee'', JString ''42500''),
               (''totalFeeEth'', JString ''42500 wei'')],
            item_pairedItem = Some 0\<rparr>]) \<and>
   gas_execute example_lib
       (Inr (example_provider\<lparr>p_call_getL1Fee := (\<lambda>a d. Inl (Error ''revert''))\<rparr>))
       example_gas_params 0 ''getTotalFeeEstimate'' =
     ([CEstimateGas, CGetFeeData, CGetL1Fee],
      Inr [\<lparr>item_json =
              [(''gasEstimate'', JString ''21000''), (''l2ExecutionFee'', JString ''42000''),
               (''l1DataFee'', JString ''0''), (''totalFee'', JString ''42000''),
               (''totalFeeEth'', JString ''42000 wei'')],
            item_pairedItem = Some 0\<rparr>]) \<and>
   calculateTotalFee example_provider
       \<lparr>tx_data = Some ''0xab'', tx_to = None, tx_value = None\<rparr>
       (Some L1_GAS_PRICE_ORACLE_ADDRESS) =
     Inr \<lparr>ge_gasLimit = 25200, ge_gasPrice = 2, ge_maxFeePerGas = 3,
          ge_maxPriorityFeePerGas = 0, ge_l1DataFee = 500, ge_l2ExecutionFee = 75600,
          ge_totalFee = 76100\<rparr> \<and>
   calculateTotalFee
       (example_provider\<lparr>p_call_getL1Fee := (\<lambda>a d. Inl (Error ''revert''))\<rparr>)
       \<lparr>tx_data = Some ''0xab'', tx_to = None, tx_value = None\<rparr>
       (Some L1_GAS_PRICE_ORACLE_ADDRESS) =
     Inr \<lparr>ge_gasLimit = 25200, ge_gasPrice = 2, ge_maxFeePerGas = 3,
          ge_maxPriorityFeePerGas = 0, ge_l1DataFee = 0, ge_l2ExecutionFee = 75600,
          ge_totalFee = 75600\<rparr>"
proof -
  have b: "gas_build_tx example_lib example_gas_params =
           Inr \<lparr>tx_data = Some ''0x'', tx_to = None, tx_value = None\<rparr>"
    by (simp add: gas_build_tx_def example_gas_params_def truthy_def bindE_def)
  have ev: "example_gas_params = \<lparr>gp_toAddress = [], gp_value = 0, gp_data = ''0x'',
              gp_blockCount = 10\<rparr>"
    by (simp add: example_gas_params_def)
  have g1: "gas_execute example_lib (Inr example_provider) example_gas_params 0
             ''getTotalFeeEstimate'' =
     ([CEstimateGas, CGetFeeData, CGetL1Fee],
      Inr [\<lparr>item_json =
              [(''gasEstimate'', JString ''21000''), (''l2ExecutionFee'', JString ''42000''),
               (''l1DataFee'', JString ''500''), (''totalFee'', JString ''42500''),
               (''totalFeeEth'', JString ''42500 wei'')],
            item_pairedItem = Some 0\<rparr>])"
    by (rule iffD2 [OF totalFee_composition [THEN conjunct1]], simp only: b)
       (simp add: example_provider_def example_lib_def ev data_or_0x_def
          bigint_toString_def nat_toString.simps)
  have g2: "gas_execute example_lib
       (Inr (example_provider\<lparr>p_call_getL1Fee := (\<lambda>a d. Inl (Error ''revert''))\<rparr>))
       example_gas_params 0 ''getTotalFeeEstimate'' =
     ([CEstimateGas, CGetFeeData, CGetL1Fee],
      Inr [\<lparr>item_json =
              [(''gasEstimate'', JString ''21000''), (''l2ExecutionFee'', JString ''42000''),
               (''l1DataFee'', JString ''0''), (''totalFee'', JString ''42000''),
               (''totalFeeEth'', JString ''42000 wei'')],
            item_pairedItem = Some 0\<rparr>])"
    by (rule iffD2 [OF totalFee_composition [THEN conjunct1]], simp only: b)
       (simp add: example_provider_def example_lib_def ev data_or_0x_def
          bigint_toString_def nat_toString.simps)
  have c1: "calculateTotalFee example_provider
       \<lparr>tx_data = Some ''0xab'', tx_to = None, tx_value = None\<rparr>
       (Some L1_GAS_PRICE_ORACLE_ADDRESS) =
     Inr \<lparr>ge_gasLimit = 25200, ge_gasPrice = 2, ge_maxFeePerGas = 3,
          ge_maxPriorityFeePerGas = 0, ge_l1DataFee = 500, ge_l2ExecutionFee = 75600,
          ge_totalFee = 76100\<rparr>"
    by (rule iffD2 [OF totalFee_composition [THEN conjunct2, THEN conjunct1]])
       (simp add: example_provider_def L1_GAS_PRICE_ORACLE_ADDRESS_def)
  have c2: "calculateTotalFee
       (example_provider\<lparr>p_call_getL1Fee := (\<lambda>a d. Inl (Error ''revert''))\<rparr>)
       \<lparr>tx_data = Some ''0xab'', tx_to = None, tx_value = None\<rparr>
       (Some L1_GAS_PRICE_ORACLE_ADDRESS) =
     Inr \<lparr>ge_gasLimit = 25200, ge_gasPrice = 2, ge_maxFeePerGas = 3,
          ge_maxPriorityFeePerGas = 0, ge_l1DataFee = 0, ge_l2ExecutionFee = 75600,
          ge_totalFee = 75600\<rparr>"
    by (rule iffD2 [OF totalFee_composition [THEN conjunct2, THEN conjunct1]])
       (simp add: example_provider_def L1_GAS_PRICE_ORACLE_ADDRESS_def)
  show ?thesis using g1 g2 c1 c2 by (intro conjI)
qed

subsection \<open>Calls issued by a resource operation\<close>

























subsection \<open>Item loop of the node\<close>

lemma execute_items_continue:
  "execute_items run True idxs acc =
   Inr (acc @ concat (map (\<lambda>i. case run i of Inr r \<Rightarrow> r | Inl e \<Rightarrow> [error_item e i]) idxs))"
  by (induction idxs arbitrary: acc) (auto split: sum.splits)

lemma execute_items_all_ok:
  "\<forall>i \<in> set idxs. \<exists>r. run i = Inr r \<Longrightarrow>
   execute_items run c idxs acc = Inr (acc @ concat (map (\<lambda>i. projr (run i)) idxs))"
  by (induction idxs arbitrary: acc) (auto split: sum.splits)

lemma execute_items_stop:
  "\<forall>j \<in> set pre. \<exists>r. run j = Inr r \<Longrightarrow> run i = Inl e \<Longrightarrow>
   execute_items run False (pre @ i # post) acc = Inl e"
  by (induction pre arbitrary: acc) (auto split: sum.splits)

lemma error_item_case:
  "(case x of Inr r \<Rightarrow> r | Inl e \<Rightarrow> [error_item e i]) =
   (case x of
      Inr r \<Rightarrow> r
    | Inl (Error m) \<Rightarrow> [\<lparr>item_json = [(''error'', JString m)], item_pairedItem = Some i\<rparr>])"
  by (simp add: error_item_def split: sum.splits error.splits)

lemma dispatch_resource_explicit:
  "dispatch_resource modules resource i operation =
   (if resource \<in>
         {''account'', ''transaction'', ''token'', ''nft'', ''contract'', ''block'', ''event'',
          ''bridge'', ''batch'', ''rollup'', ''gas'', ''defi'', ''sessionKeys'',
          ''accountAbstraction'', ''multicall'', ''canvas'', ''analytics'', ''subgraph'',
          ''utility''}
    then modules resource i operation
    else Inl (Error (''Unknown resource: '' @ resource)))"
  by (simp add: dispatch_resource_def resources_def)

text \<open>C7: \<open>Scroll.execute\<close> processes the items in index order; each item goes to the
  selected resource's \<open>execute\<close>, and an unknown resource throws.  With \<open>continueOnFail\<close>,
  the output is the concatenation, in order, of what each item contributes: the
  resource's result, or exactly one item \<open>{error: message}\<close>, with the message of the
  error thrown, paired to item \<open>i\<close> where the resource throws at \<open>i\<close>; the later items are
  still processed.  Without \<open>continueOnFail\<close>, the error of the first failing item
  propagates out of \<open>execute\<close>, so nothing is returned for that item or any later one;
  when no item fails the output is the concatenation of the results.\<close>

theorem Scroll_execute_continueOnFail:
  fixes modules resource operation n
  defines "run \<equiv>
    (\<lambda>i. if resource \<in>
               {''account'', ''transaction'', ''token'', ''nft'', ''contract'', ''block'',
                ''event'', ''bridge'', ''batch'', ''rollup'', ''gas'', ''defi'',
                ''sessionKeys'', ''accountAbstraction'', ''multicall'', ''canvas'',
                ''analytics'', ''subgraph'', ''utility''}
          then modules resource i operation
          else Inl (Error (''Unknown resource: '' @ resource)))"
  shows "Scroll_execute modules True n resource operation =
           Inr [concat (map (\<lambda>i. case run i of
                                    Inr r \<Rightarrow> r
                                  | Inl (Error m) \<Rightarrow>
                                      [\<lparr>item_json = [(''error'', JString m)],
                                        item_pairedItem = Some i\<rparr>])
                          [0..<n])] \<and>
         (\<forall>i < n. \<forall>e. (\<forall>j < i. \<exists>r. run j = Inr r) \<and> run i = Inl e \<longrightarrow>
            Scroll_execute modules False n resource operation = Inl e) \<and>
         ((\<forall>i < n. \<exists>r. run i = Inr r) \<longrightarrow>
            Scroll_execute modules False n resource operation =
              Inr [concat (map (\<lambda>i. projr (run i)) [0..<n])])"
proof (intro conjI allI impI)
  have run: "run = (\<lambda>i. dispatch_resource modules resource i operation)"
    unfolding run_def dispatch_resource_explicit ..
  show "Scroll_execute modules True n resource operation =
           Inr [concat (map (\<lambda>i. case run i of
                                    Inr r \<Rightarrow> r
                                  | Inl (Error m) \<Rightarrow>
                                      [\<lparr>item_json = [(''error'', JString m)],
                                        item_pairedItem = Some i\<rparr>])
                          [0..<n])]"
    unfolding run
    by (simp add: Scroll_execute_def execute_items_continue bindE_def error_item_case)
  {
    fix i e
    assume lt: "i < n" and h: "(\<forall>j < i. \<exists>r. run j = Inr r) \<and> run i = Inl e"
    have split: "[0..<n] = [0..<i] @ i # [Suc i..<n]"
      using lt upt_add_eq_append [of 0 i "n - i"] by (simp add: upt_conv_Cons)
    have "execute_items run False ([0..<i] @ i # [Suc i..<n]) [] = Inl e"
      using h by (intro execute_items_stop) auto
    then show "Scroll_execute modules False n resource operation = Inl e"
      by (simp add: Scroll_execute_def run [symmetric] split bindE_def)
  }
  {
    assume "\<forall>i < n. \<exists>r. run i = Inr r"
    then have "execute_items run False [0..<n] [] =
               Inr ([] @ concat (map (\<lambda>i. projr (run i)) [0..<n]))"
      by (intro execute_items_all_ok) auto
    then show "Scroll_execute modules False n resource operation =
                Inr [concat (map (\<lambda>i. projr (run i)) [0..<n])]"
      by (simp add: Scroll_execute_def run [symmetric] bindE_def)
  }
qed

theorem Scroll_execute_continueOnFail_witness:
  "Scroll_execute example_modules True 3 ''gas'' ''getGasPrice'' =
     Inr [[\<lparr>item_json = [(''resource'', JString ''gas'')], item_pairedItem = Some 0\<rparr>,
           \<lparr>item_json = [(''error'', JString ''boom'')], item_pairedItem = Some 1\<rparr>,
           \<lparr>item_json = [(''resource'', JString ''gas'')], item_pairedItem = Some 2\<rparr>]] \<and>
   Scroll_execute example_modules False 3 ''gas'' ''getGasPrice'' = Inl (Error ''boom'')"
proof -
  have u: "[0..<3] = [0, 1, 2::nat]"
    by (simp add: upt_conv_Cons)
  note t = Scroll_execute_continueOnFail [of example_modules 3 "''gas''" "''getGasPrice''"]
  have a: "Scroll_execute example_modules True 3 ''gas'' ''getGasPrice'' =
     Inr [[\<lparr>item_json = [(''resource'', JString ''gas'')], item_pairedItem = Some 0\<rparr>,
           \<lparr>item_json = [(''error'', JString ''boom'')], item_pairedItem = Some 1\<rparr>,
           \<lparr>item_json = [(''resource'', JString ''gas'')], item_pairedItem = Some 2\<rparr>]]"
    using t [THEN conjunct1] by (simp add: u example_modules_def)
  have b: "Scroll_execute example_modules False 3 ''gas'' ''getGasPrice'' = Inl (Error ''boom'')"
    using t [THEN conjunct2, THEN conjunct1, rule_format, of 1 "Error ''boom''"]
    by (simp add: example_modules_def)
  show ?thesis using a b by simp
qed

subsection \<open>Dispatch of the trigger\<close>

lemmas example_defs =
  example_lib_def example_provider_def example_block_def example_log_def
  example_trigger_params_def example_state_def

lemmas poll_eval =
  poll_def bindE_def or_else_def truthy_def at_index_def event_def poll_logs_def
  read_block_window_def

lemma poll_switch_simps:
  "tp_triggerType params = ''newBlock'' \<Longrightarrow>
     poll_switch lib params provider s = poll_newBlock params provider s"
  "tp_triggerType params = ''blockFinalized'' \<Longrightarrow>
     poll_switch lib params provider s = poll_blockFinalized provider s"
  "tp_triggerType params = ''transactionConfirmed'' \<Longrightarrow>
     poll_switch lib params provider s = poll_transactionConfirmed params provider s"
  "tp_triggerType params = ''tokenTransfer'' \<Longrightarrow>
     poll_switch lib params provider s = poll_tokenTransfer lib params provider s"
  "tp_triggerType params = ''nftTransfer'' \<Longrightarrow>
     poll_switch lib params provider s = poll_nftTransfer lib params provider s"
  "tp_triggerType params = ''contractEvent'' \<Longrightarrow>
     poll_switch lib params provider s = poll_contractEvent lib params provider s"
  "tp_triggerType params = ''addressActivity'' \<Longrightarrow>
     poll_switch lib params provider s = poll_addressActivity lib params provider s"
  "tp_triggerType params = ''largeTransaction'' \<Longrightarrow>
     poll_switch lib params provider s = poll_largeTransaction lib params provider s"
  "tp_triggerType params = ''bridgeDeposit'' \<Longrightarrow>
     poll_switch lib params provider s = poll_bridge lib params provider s"
  "tp_triggerType params = ''bridgeWithdrawal'' \<Longrightarrow>
     poll_switch lib params provider s = poll_bridge lib params provider s"
  "tp_triggerType params = ''canvasBadgeMinted'' \<Longrightarrow>
     poll_switch lib params provider s = poll_canvasBadgeMinted lib params provider s"
  by (simp_all add: poll_switch_def)

lemma poll_switch_other:
  "tp_triggerType params \<notin> set (map snd triggerType_options) \<Longrightarrow>
   poll_switch lib params provider s = Inr (Break [], s)"
  by (simp add: poll_switch_def triggerType_options_def)

lemma poll_switch_cases:
  assumes "tp_triggerType params = ''newBlock'' \<Longrightarrow> P (poll_newBlock params provider s)"
    and "tp_triggerType params = ''blockFinalized'' \<Longrightarrow> P (poll_blockFinalized provider s)"
    and "tp_triggerType params = ''transactionConfirmed'' \<Longrightarrow>
           P (poll_transactionConfirmed params provider s)"
    and "tp_triggerType params = ''tokenTransfer'' \<Longrightarrow>
           P (poll_tokenTransfer lib params provider s)"
    and "tp_triggerType params = ''nftTransfer'' \<Longrightarrow>
           P (poll_nftTransfer lib params provider s)"
    and "tp_triggerType params = ''contractEvent'' \<Longrightarrow>
           P (poll_contractEvent lib params provider s)"
    and "tp_triggerType params = ''addressActivity'' \<Longrightarrow>
           P (poll_addressActivity lib params provider s)"
    and "tp_triggerType params = ''largeTransaction'' \<Longrightarrow>
           P (poll_largeTransaction lib params provider s)"
    and "tp_triggerType params = ''bridgeDeposit'' \<or>
         tp_triggerType params = ''bridgeWithdrawal'' \<Longrightarrow>
           P (poll_bridge lib params provider s)"
    and "tp_triggerType params = ''canvasBadgeMinted'' \<Longrightarrow>
           P (poll_canvasBadgeMinted lib params provider s)"
    and "tp_triggerType params \<notin> set (map snd triggerType_options) \<Longrightarrow>
           P (Inr (Break [], s))"
  shows "P (poll_switch lib params provider s)"
proof (cases "tp_triggerType params \<in> set (map snd triggerType_options)")
  case False
  then show ?thesis using assms(11) by (simp add: poll_switch_other)
next
  case True
  then consider "tp_triggerType params = ''newBlock''"
    | "tp_triggerType params = ''blockFinalized''"
    | "tp_triggerType params = ''transactionConfirmed''"
    | "tp_triggerType params = ''tokenTransfer''"
    | "tp_triggerType params = ''nftTransfer''"
    | "tp_triggerType params = ''contractEvent''"
    | "tp_triggerType params = ''addressActivity''"
    | "tp_triggerType params = ''bridgeDeposit''"
    | "tp_triggerType params = ''bridgeWithdrawal''"
    | "tp_triggerType params = ''largeTransaction''"
    | "tp_triggerType params = ''canvasBadgeMinted''"
    unfolding triggerType_options_def by (simp only: list.map snd_conv list.set) blast
  then show ?thesis
    using assms poll_switch_simps [of params lib provider s]
    by cases simp_all
qed

subsection \<open>Cursors never decrease\<close>

lemma or_else_Some [simp]: "or_else (Some n) 0 = n"
  by (simp add: or_else_def)

lemma cursors_le_refl: "cursors_le s s"
  by (simp add: cursors_le_def)

lemma cursors_le_trans: "cursors_le a b \<Longrightarrow> cursors_le b c \<Longrightarrow> cursors_le a c"
  by (auto simp: cursors_le_def)

lemma read_block_window_ge:
  "read_block_window provider s = Inr (lastBlock, currentBlock) \<Longrightarrow>
   or_else (sd_lastBlock s) 0 \<le> lastBlock"
  by (auto simp: read_block_window_def bindE_def split: if_splits sum.splits)

lemma mapE_length: "mapE f xs = Inr ys \<Longrightarrow> length ys = length xs"
  by (induction xs arbitrary: ys) (auto simp: bindE_def split: sum.splits)

lemma poll_logs_result:
  assumes "poll_logs provider s address topics mk_event = Inr (exit, s')"
  shows "(exit = Break [] \<and> s' = s) \<or>
         (\<exists>lastBlock currentBlock tps logs events.
            read_block_window provider s = Inr (lastBlock, currentBlock) \<and>
            lastBlock < currentBlock \<and> topics = Inr tps \<and>
            p_getLogs provider
              \<lparr>flt_address = address, flt_topics = tps, flt_fromBlock = lastBlock + 1,
               flt_toBlock = currentBlock\<rparr> = Inr logs \<and>
            mapE mk_event logs = Inr events \<and>
            exit = Break events \<and> s' = s\<lparr>sd_lastBlock := Some currentBlock\<rparr>)"
  using assms
  by (auto simp: poll_logs_def bindE_def split: sum.splits prod.splits if_splits)

lemma poll_logs_monotone:
  assumes "poll_logs provider s address topics mk_event = Inr (exit, s')"
  shows "cursors_le s s'"
  using poll_logs_result [OF assms] read_block_window_ge [of provider s]
  by (fastforce simp: cursors_le_def)

lemma poll_newBlock_monotone:
  assumes "1 \<le> tp_blockInterval params"
    and "poll_newBlock params provider s = Inr (exit, s')"
  shows "cursors_le s s'"
  using assms
  by (auto simp: poll_newBlock_def bindE_def Let_def cursors_le_def
           split: sum.splits if_splits)

lemma poll_blockFinalized_monotone:
  assumes "poll_blockFinalized provider s = Inr (exit, s')"
  shows "cursors_le s s'"
  using assms
  by (auto simp: poll_blockFinalized_def bindE_def Let_def cursors_le_def
           split: sum.splits if_splits option.splits)

lemma poll_transactionConfirmed_monotone:
  assumes "poll_transactionConfirmed params provider s = Inr (exit, s')"
  shows "cursors_le s s'"
  using assms
  by (auto simp: poll_transactionConfirmed_def bindE_def Let_def cursors_le_def
           split: sum.splits if_splits option.splits)

lemma poll_addressActivity_monotone:
  assumes "poll_addressActivity lib params provider s = Inr (exit, s')"
  shows "cursors_le s s'"
  using assms
  by (auto simp: poll_addressActivity_def bindE_def Let_def cursors_le_def
           split: sum.splits if_splits)

lemma poll_largeTransaction_monotone:
  assumes "poll_largeTransaction lib params provider s = Inr (exit, s')"
  shows "cursors_le s s'"
  using assms read_block_window_ge [of provider s]
  by (fastforce simp: poll_largeTransaction_def bindE_def cursors_le_def
           split: sum.splits if_splits prod.splits)

lemma poll_switch_monotone:
  assumes "1 \<le> tp_blockInterval params"
    and "poll_switch lib params provider s = Inr (exit, s')"
  shows "cursors_le s s'"
proof -
  have "\<forall>exit s'. poll_switch lib params provider s = Inr (exit, s') \<longrightarrow> cursors_le s s'"
  proof (rule poll_switch_cases)
    show "\<forall>exit s'. poll_newBlock params provider s = Inr (exit, s') \<longrightarrow> cursors_le s s'"
      using poll_newBlock_monotone [OF assms(1)] by blast
  qed (auto simp: poll_tokenTransfer_def poll_nftTransfer_def poll_contractEvent_def
          poll_bridge_def poll_canvasBadgeMinted_def cursors_le_refl
        dest: poll_logs_monotone poll_blockFinalized_monotone poll_transactionConfirmed_monotone
          poll_addressActivity_monotone poll_largeTransaction_monotone)
  then show ?thesis using assms(2) by blast
qed

lemma poll_monotone:
  assumes "1 \<le> tp_blockInterval params"
    and "poll lib params client s = Inr (result, s')"
  shows "cursors_le s s'"
  using assms(2) poll_switch_monotone [OF assms(1)]
  by (auto simp: poll_def bindE_def split: sum.splits prod.splits poll_exit.splits if_splits)

lemma run_polls_append:
  "run_polls lib (xs @ ys) s = run_polls lib ys (run_polls lib xs s)"
  by (induction xs arbitrary: s) auto

lemma run_polls_monotone:
  "\<forall>step \<in> set steps. 1 \<le> tp_blockInterval (fst step) \<Longrightarrow>
   cursors_le s (run_polls lib steps s)"
proof (induction steps arbitrary: s)
  case Nil
  show ?case by (simp add: cursors_le_refl)
next
  case (Cons step steps)
  obtain params client where step: "step = (params, client)" by (cases step)
  have bi: "1 \<le> tp_blockInterval params" using Cons.prems step by simp
  let ?s1 = "case poll lib params client s of Inl e \<Rightarrow> s | Inr (result, s') \<Rightarrow> s'"
  have "cursors_le s ?s1"
    using poll_monotone [OF bi] by (auto simp: cursors_le_refl split: sum.splits)
  moreover have "cursors_le ?s1 (run_polls lib steps ?s1)"
    using Cons.IH Cons.prems by simp
  ultimately show ?case
    using step cursors_le_trans by (simp del: or_else_Some)
qed

text \<open>C8: if every invocation has \<open>blockInterval \<ge> 1\<close>, then along any sequence of
  poll invocations, whatever the trigger kinds and whatever block numbers, finalized
  blocks and nonces the provider returns, the persisted cursors \<open>lastBlock\<close>,
  \<open>lastFinalized\<close> and \<open>lastNonce\<close> never decrease: the static data after the earlier
  invocations is below the static data after any continuation.\<close>

theorem cursors_non_decreasing:
  "(1 \<le> tp_blockInterval params \<longrightarrow> poll lib params client s = Inr (result, s') \<longrightarrow>
      cursors_le s s') \<and>
   ((\<forall>step \<in> set (earlier @ later). 1 \<le> tp_blockInterval (fst step)) \<longrightarrow>
      cursors_le (run_polls lib earlier start) (run_polls lib (earlier @ later) start))"
proof (intro conjI impI)
  assume "1 \<le> tp_blockInterval params" and "poll lib params client s = Inr (result, s')"
  then show "cursors_le s s'" by (rule poll_monotone)
next
  assume "\<forall>step \<in> set (earlier @ later). 1 \<le> tp_blockInterval (fst step)"
  then show "cursors_le (run_polls lib earlier start) (run_polls lib (earlier @ later) start)"
    using run_polls_monotone [where steps = later and lib = lib
        and s = "run_polls lib earlier start"]
    by (simp add: run_polls_append)
qed

theorem cursors_non_decreasing_witness:
  "poll example_lib (example_trigger_params ''newBlock'') (Inr example_provider) example_state =
     Inr (Some [[\<lparr>item_json =
                    [(''blockNumber'', JNumber 100), (''blockHash'', JString ''0xb100''),
                     (''timestamp'', JNumber 1700000000), (''transactionCount'', JNumber 2),
                     (''gasUsed'', JString ''5000000''), (''gasLimit'', JString ''10000000'')],
                  item_pairedItem = None\<rparr>]],
          example_state\<lparr>sd_lastBlock := Some 100\<rparr>) \<and>
   cursors_le example_state (example_state\<lparr>sd_lastBlock := Some 100\<rparr>) \<and>
   cursors_le
     (run_polls example_lib [(example_trigger_params ''newBlock'', Inr example_provider)]
        example_state)
     (run_polls example_lib
        ([(example_trigger_params ''newBlock'', Inr example_provider)] @
         [(example_trigger_params ''addressActivity'', Inr example_provider)])
        example_state)"
proof -
  have p: "poll example_lib (example_trigger_params ''newBlock'') (Inr example_provider)
             example_state =
     Inr (Some [[\<lparr>item_json =
                    [(''blockNumber'', JNumber 100), (''blockHash'', JString ''0xb100''),
                     (''timestamp'', JNumber 1700000000), (''transactionCount'', JNumber 2),
                     (''gasUsed'', JString ''5000000''), (''gasLimit'', JString ''10000000'')],
                  item_pairedItem = None\<rparr>]],
          example_state\<lparr>sd_lastBlock := Some 100\<rparr>)"
    by (simp add: poll_switch_simps poll_newBlock_def poll_eval example_defs opt_string_def
          bigint_toString_def nat_toString.simps)
  have b: "1 \<le> tp_blockInterval (example_trigger_params ''newBlock'')"
    by (simp add: example_trigger_params_def)
  have h: "\<forall>step \<in> set ([(example_trigger_params ''newBlock'', Inr example_provider)] @
         [(example_trigger_params ''addressActivity'', Inr example_provider)]).
         1 \<le> tp_blockInterval (fst step)"
    by (simp add: example_trigger_params_def)
  note t = cursors_non_decreasing [where lib = example_lib
      and params = "example_trigger_params ''newBlock''" and client = "Inr example_provider"
      and s = example_state and start = example_state
      and earlier = "[(example_trigger_params ''newBlock'', Inr example_provider)]"
      and later = "[(example_trigger_params ''addressActivity'', Inr example_provider)]"]
  have one: "cursors_le example_state (example_state\<lparr>sd_lastBlock := Some 100\<rparr>)"
    using t [THEN conjunct1, THEN mp, THEN mp, OF b p] .
  have many: "cursors_le
     (run_polls example_lib [(example_trigger_params ''newBlock'', Inr example_provider)]
        example_state)
     (run_polls example_lib
        ([(example_trigger_params ''newBlock'', Inr example_provider)] @
         [(example_trigger_params ''addressActivity'', Inr example_provider)])
        example_state)"
    using t [THEN conjunct2, THEN mp, OF h] .
  show ?thesis using p one many by (intro conjI)
qed

text \<open>The bound on \<open>blockInterval\<close> is needed: with a negative interval the newBlock
  branch moves the cursor back when the provider reports an older head.\<close>

lemma cursor_decreases_with_negative_interval:
  "poll example_lib ((example_trigger_params ''newBlock'')\<lparr>tp_blockInterval := - 60\<rparr>)
     (Inr example_provider) (example_state\<lparr>sd_lastBlock := Some 150\<rparr>) =
     Inr (Some [[\<lparr>item_json =
                    [(''blockNumber'', JNumber 100), (''blockHash'', JString ''0xb100''),
                     (''timestamp'', JNumber 1700000000), (''transactionCount'', JNumber 2),
                     (''gasUsed'', JString ''5000000''), (''gasLimit'', JString ''10000000'')],
                  item_pairedItem = None\<rparr>]],
          example_state\<lparr>sd_lastBlock := Some 100\<rparr>)"
  by (simp add: poll_switch_simps poll_newBlock_def poll_eval example_defs opt_string_def
        bigint_toString_def nat_toString.simps)

subsection \<open>Trigger kinds\<close>

lemma handles_newBlock:
  "\<exists>items s'. poll example_lib (example_trigger_params ''newBlock'') (Inr example_provider)
       example_state = Inr (Some items, s')"
  by (simp add: poll_switch_simps poll_newBlock_def poll_eval example_defs)

lemma handles_blockFinalized:
  "\<exists>items s'. poll example_lib (example_trigger_params ''blockFinalized'')
       (Inr example_provider) example_state = Inr (Some items, s')"
  by (simp add: poll_switch_simps poll_blockFinalized_def poll_eval example_defs)

lemma handles_transactionConfirmed:
  "\<exists>items s'. poll example_lib (example_trigger_params ''transactionConfirmed'')
       (Inr example_provider) example_state = Inr (Some items, s')"
  by (simp add: poll_switch_simps poll_transactionConfirmed_def poll_eval example_defs)

lemma handles_tokenTransfer:
  "\<exists>items s'. poll example_lib (example_trigger_params ''tokenTransfer'')
       (Inr example_provider) example_state = Inr (Some items, s')"
  by (simp add: poll_switch_simps poll_tokenTransfer_def token_topics_def token_event_def
        topic_address_def poll_eval example_defs)

lemma handles_nftTransfer:
  "\<exists>items s'. poll example_lib (example_trigger_params ''nftTransfer'')
       (Inr example_provider) example_state = Inr (Some items, s')"
  by (simp add: poll_switch_simps poll_nftTransfer_def nft_event_def
        topic_address_def topic_bigint_def poll_eval example_defs)

lemma handles_contractEvent:
  "\<exists>items s'. poll example_lib (example_trigger_params ''contractEvent'')
       (Inr example_provider) example_state = Inr (Some items, s')"
  by (simp add: poll_switch_simps poll_contractEvent_def contract_event_def
        poll_eval example_defs)

lemma handles_addressActivity:
  "\<exists>items s'. poll example_lib (example_trigger_params ''addressActivity'')
       (Inr example_provider) example_state = Inr (Some items, s')"
  by (simp add: poll_switch_simps poll_addressActivity_def poll_eval example_defs)

lemma handles_bridgeDeposit:
  "\<exists>items s'. poll example_lib (example_trigger_params ''bridgeDeposit'')
       (Inr example_provider) example_state = Inr (Some items, s')"
  by (simp add: poll_switch_simps poll_bridge_def bridge_event_def poll_eval example_defs)

lemma handles_bridgeWithdrawal:
  "\<exists>items s'. poll example_lib (example_trigger_params ''bridgeWithdrawal'')
       (Inr example_provider) example_state = Inr (Some items, s')"
  by (simp add: poll_switch_simps poll_bridge_def bridge_event_def poll_eval example_defs)

lemma handles_largeTransaction:
  "\<exists>items s'. poll example_lib (example_trigger_params ''largeTransaction'')
       (Inr example_provider) example_state = Inr (Some items, s')"
  by (simp add: poll_switch_simps poll_largeTransaction_def large_block_events_def
        large_tx_matches_def large_tx_event_def upt_conv_Cons poll_eval example_defs)

lemma handles_canvasBadgeMinted:
  "\<exists>items s'. poll example_lib (example_trigger_params ''canvasBadgeMinted'')
       (Inr example_provider) example_state = Inr (Some items, s')"
  by (simp add: poll_switch_simps poll_canvasBadgeMinted_def badge_topics_def badge_event_def
        topic_address_def topic_bigint_def poll_eval example_defs)

lemma example_trigger_type [simp]: "tp_triggerType (example_trigger_params t) = t"
  by (simp add: example_trigger_params_def)

text \<open>C6: the \<open>triggerType\<close> option list has exactly the 11 values newBlock,
  blockFinalized, transactionConfirmed, tokenTransfer, nftTransfer, contractEvent,
  addressActivity, bridgeDeposit, bridgeWithdrawal, largeTransaction and
  canvasBadgeMinted; for each of them the switch of \<open>poll\<close> has a branch that can emit
  (some invocation returns items); for any other value, \<open>poll\<close> emits nothing, returns
  \<open>null\<close> and leaves the static data unchanged.\<close>

theorem trigger_kinds:
  "map snd triggerType_options =
     [''newBlock'', ''blockFinalized'', ''transactionConfirmed'', ''tokenTransfer'',
      ''nftTransfer'', ''contractEvent'', ''addressActivity'', ''bridgeDeposit'',
      ''bridgeWithdrawal'', ''largeTransaction'', ''canvasBadgeMinted''] \<and>
   length triggerType_options = 11 \<and>
   distinct (map snd triggerType_options) \<and>
   (\<forall>t \<in> set (map snd triggerType_options).
      \<exists>lib' params' provider' s0 items s1.
        tp_triggerType params' = t \<and>
        poll lib' params' (Inr provider') s0 = Inr (Some items, s1)) \<and>
   (tp_triggerType params \<notin> set (map snd triggerType_options) \<longrightarrow>
      poll lib params (Inr provider) s = Inr (None, s))"
proof (intro conjI impI)
  show "map snd triggerType_options =
     [''newBlock'', ''blockFinalized'', ''transactionConfirmed'', ''tokenTransfer'',
      ''nftTransfer'', ''contractEvent'', ''addressActivity'', ''bridgeDeposit'',
      ''bridgeWithdrawal'', ''largeTransaction'', ''canvasBadgeMinted'']"
    by (simp add: triggerType_options_def)
  show "length triggerType_options = 11"
    by (simp add: triggerType_options_def)
  show "distinct (map snd triggerType_options)"
    by (simp add: triggerType_options_def)
  have ex: "\<exists>lib' params' provider' s0 items s1.
        tp_triggerType params' = t \<and>
        poll lib' params' (Inr provider') s0 = Inr (Some items, s1)"
    if "\<exists>items s1. poll example_lib (example_trigger_params t) (Inr example_provider)
          example_state = Inr (Some items, s1)" for t
    using that example_trigger_type by blast
  show "\<forall>t \<in> set (map snd triggerType_options).
      \<exists>lib' params' provider' s0 items s1.
        tp_triggerType params' = t \<and>
        poll lib' params' (Inr provider') s0 = Inr (Some items, s1)"
    unfolding triggerType_options_def
    by (simp only: list.map snd_conv list.set ball_simps simp_thms)
       (intro conjI ex handles_newBlock handles_blockFinalized handles_transactionConfirmed
          handles_tokenTransfer handles_nftTransfer handles_contractEvent
          handles_addressActivity handles_bridgeDeposit handles_bridgeWithdrawal
          handles_largeTransaction handles_canvasBadgeMinted)
next
  assume "tp_triggerType params \<notin> set (map snd triggerType_options)"
  then show "poll lib params (Inr provider) s = Inr (None, s)"
    by (simp add: poll_def poll_switch_other bindE_def)
qed

theorem trigger_kinds_witness:
  "''priceAlert'' \<notin> set (map snd triggerType_options) \<and>
   poll example_lib (example_trigger_params ''priceAlert'') (Inr example_provider) example_state =
     Inr (None, example_state)"
  using trigger_kinds [THEN conjunct2, THEN conjunct2, THEN conjunct2, THEN conjunct2,
      of "example_trigger_params ''priceAlert''" example_lib example_provider example_state]
  by (simp add: triggerType_options_def)

subsection \<open>When the trigger emits\<close>

lemma poll_Some_switch:
  assumes "poll lib params (Inr provider) s = Inr (Some items, s')"
  shows "\<exists>events. poll_switch lib params provider s = Inr (Break events, s') \<and> events \<noteq> [] \<and>
           items = [events]"
  using assms
  by (auto simp: poll_def bindE_def split: sum.splits prod.splits poll_exit.splits if_splits)

lemma newBlock_emits:
  assumes "poll_newBlock params provider s = Inr (Break events, s')" and "events \<noteq> []"
  shows "or_else (sd_lastBlock s) 0 \<noteq> 0 \<and>
         (\<exists>currentBlock. p_getBlockNumber provider 0 = Inr currentBlock \<and>
            real (or_else (sd_lastBlock s) 0) + tp_blockInterval params \<le> real currentBlock)"
  using assms
  by (auto simp: poll_newBlock_def bindE_def Let_def split: sum.splits if_splits)

lemma blockFinalized_emits:
  assumes "poll_blockFinalized provider s = Inr (Break events, s')" and "events \<noteq> []"
  shows "\<exists>b. p_getBlock provider TagFinalized False = Inr (Some b) \<and>
             or_else (sd_lastFinalized s) 0 < blk_number b"
  using assms
  by (auto simp: poll_blockFinalized_def bindE_def Let_def
           split: sum.splits if_splits option.splits)

lemma transactionConfirmed_emits:
  assumes "poll_transactionConfirmed params provider s = Inr (Break events, s')"
    and "events \<noteq> []"
  shows "sd_triggered s \<noteq> Some True \<and>
         (\<exists>rc currentBlock.
            p_getTransactionReceipt provider (tp_transactionHash params) = Inr (Some rc) \<and>
            p_getBlockNumber provider 0 = Inr currentBlock \<and>
            tp_confirmations params \<le> real currentBlock - real (rc_blockNumber rc))"
  using assms
  by (auto simp: poll_transactionConfirmed_def bindE_def Let_def
           split: sum.splits if_splits option.splits)

lemma addressActivity_emits:
  assumes "poll_addressActivity lib params provider s = Inr (Break events, s')"
    and "events \<noteq> []"
  shows "\<exists>currentNonce.
           p_getTransactionCount provider (tp_watchAddress params) = Inr currentNonce \<and>
           (or_else (sd_lastNonce s) 0 < currentNonce \<or> or_else (sd_lastNonce s) 0 = 0)"
  using assms
  by (auto simp: poll_addressActivity_def bindE_def Let_def split: sum.splits if_splits)

lemma logs_emit:
  assumes "poll_logs provider s address topics mk_event = Inr (Break events, s')"
    and "events \<noteq> []"
  shows "\<exists>lastBlock currentBlock fl lg logs.
           read_block_window provider s = Inr (lastBlock, currentBlock) \<and>
           lastBlock < currentBlock \<and>
           flt_fromBlock fl = lastBlock + 1 \<and> flt_toBlock fl = currentBlock \<and>
           p_getLogs provider fl = Inr (lg # logs)"
proof -
  from poll_logs_result [OF assms(1)] assms(2)
  obtain lastBlock currentBlock tps logs where
    w: "read_block_window provider s = Inr (lastBlock, currentBlock)" "lastBlock < currentBlock"
    and g: "p_getLogs provider
              \<lparr>flt_address = address, flt_topics = tps, flt_fromBlock = lastBlock + 1,
               flt_toBlock = currentBlock\<rparr> = Inr logs"
    and m: "mapE mk_event logs = Inr events"
    by auto
  from mapE_length [OF m] assms(2) obtain lg rest where "logs = lg # rest"
    by (cases logs) auto
  with w g show ?thesis
    by (intro exI [of _ lastBlock] exI [of _ currentBlock]
          exI [of _ "\<lparr>flt_address = address, flt_topics = tps, flt_fromBlock = lastBlock + 1,
                      flt_toBlock = currentBlock\<rparr>"] exI [of _ lg] exI [of _ rest]) simp
qed

lemma mapE_concat_nonempty:
  "mapE f xs = Inr yss \<Longrightarrow> concat yss \<noteq> [] \<Longrightarrow>
   \<exists>x \<in> set xs. \<exists>ys. f x = Inr ys \<and> ys \<noteq> []"
proof (induction xs arbitrary: yss)
  case Nil
  then show ?case by simp
next
  case (Cons x xs)
  from Cons.prems(1) obtain ys rest where
    fx: "f x = Inr ys" and m: "mapE f xs = Inr rest" and yss: "yss = ys # rest"
    by (auto simp: bindE_def split: sum.splits)
  show ?case
  proof (cases "ys = []")
    case True
    then have "concat rest \<noteq> []" using Cons.prems(2) yss by simp
    from Cons.IH [OF m this] show ?thesis by auto
  next
    case False
    then show ?thesis using fx by auto
  qed
qed

lemma largeTransaction_emits:
  assumes "poll_largeTransaction lib params provider s = Inr (Break events, s')"
    and "events \<noteq> []"
  shows "\<exists>lastBlock currentBlock n b tx.
           read_block_window provider s = Inr (lastBlock, currentBlock) \<and>
           lastBlock < currentBlock \<and>
           lastBlock < n \<and> n \<le> currentBlock \<and> n \<le> lastBlock + 5 \<and>
           p_getBlock provider (BlockNum (real n)) True = Inr (Some b) \<and>
           tx \<in> set (blk_prefetchedTransactions b) \<and> large_tx_matches lib params tx"
proof -
  from assms obtain lastBlock currentBlock per_block where
    w: "read_block_window provider s = Inr (lastBlock, currentBlock)" "lastBlock < currentBlock"
    and m: "mapE (large_block_events lib params provider)
              [lastBlock + 1 ..< Suc (min currentBlock (lastBlock + 5))] = Inr per_block"
    and c: "concat per_block \<noteq> []"
    by (auto simp: poll_largeTransaction_def bindE_def
             split: sum.splits if_splits prod.splits)
  from mapE_concat_nonempty [OF m c] obtain n ys where
    n: "n \<in> set [lastBlock + 1 ..< Suc (min currentBlock (lastBlock + 5))]"
    and e: "large_block_events lib params provider n = Inr ys" and ne: "ys \<noteq> []"
    by blast
  from e ne obtain b where
    b: "p_getBlock provider (BlockNum (real n)) True = Inr (Some b)"
    and f: "filter (large_tx_matches lib params) (blk_prefetchedTransactions b) \<noteq> []"
    by (auto simp: large_block_events_def bindE_def split: sum.splits option.splits)
  from f obtain tx where
    tx: "tx \<in> set (blk_prefetchedTransactions b)" "large_tx_matches lib params tx"
    by (auto simp: filter_empty_conv)
  have nb: "lastBlock < n" "n \<le> currentBlock" "n \<le> lastBlock + 5"
    using n by auto
  show ?thesis using w b tx nb by blast
qed

text \<open>C3 as stated (items only when the chain state changed relative to the cursor)
  fails for addressActivity: with a stored nonce of 0 and an address whose nonce is still
  0, on a chain whose head has not moved and that has no logs, \<open>poll\<close> returns an item and
  leaves the static data as it was, so every later poll emits again.\<close>

theorem poll_emits_without_change_counterexample:
  "poll example_lib (example_trigger_params ''addressActivity'') (Inr quiet_provider)
     quiet_state =
     Inr (Some [[\<lparr>item_json =
                    [(''address'', JString ''0xw''), (''nonce'', JNumber 0),
                     (''previousNonce'', JNumber 0), (''balance'', JString ''0 wei''),
                     (''balanceWei'', JString ''0'')],
                  item_pairedItem = None\<rparr>]], quiet_state) \<and>
   \<not> observed_change (example_trigger_params ''addressActivity'') quiet_provider quiet_state"
proof
  show "poll example_lib (example_trigger_params ''addressActivity'') (Inr quiet_provider)
     quiet_state =
     Inr (Some [[\<lparr>item_json =
                    [(''address'', JString ''0xw''), (''nonce'', JNumber 0),
                     (''previousNonce'', JNumber 0), (''balance'', JString ''0 wei''),
                     (''balanceWei'', JString ''0'')],
                  item_pairedItem = None\<rparr>]], quiet_state)"
    by (simp add: poll_switch_simps poll_addressActivity_def poll_eval example_defs
          quiet_provider_def quiet_state_def bigint_toString_def nat_toString.simps)
  show "\<not> observed_change (example_trigger_params ''addressActivity'') quiet_provider
          quiet_state"
    by (simp add: observed_change_def quiet_provider_def quiet_state_def example_defs)
qed

text \<open>C3, amended: \<open>poll\<close> returns items only under the condition of the selected
  kind, and returns \<open>null\<close> otherwise.  newBlock: a non-zero block cursor is stored and the
  head is at least \<open>blockInterval\<close> past it.  blockFinalized: the finalized block is past
  the stored finalized cursor.  transactionConfirmed: the trigger has not fired yet and
  the receipt has the required confirmations.  The log-based kinds: the head is past
  \<open>lastBlock\<close> (the stored cursor, or the head read first when none is stored) and the
  provider returns at least one log for the window \<open>(lastBlock, currentBlock]\<close>.
  largeTransaction: the head is past \<open>lastBlock\<close> and one of the first five blocks of the
  window holds a matching transaction.  addressActivity: the nonce is above the stored
  nonce, or the stored nonce is absent or 0.\<close>

theorem poll_emits_only_on_condition:
  assumes "poll lib params (Inr provider) s = Inr (Some items, s')"
  shows
    "(tp_triggerType params = ''newBlock'' \<and> or_else (sd_lastBlock s) 0 \<noteq> 0 \<and>
        (\<exists>currentBlock. p_getBlockNumber provider 0 = Inr currentBlock \<and>
           real (or_else (sd_lastBlock s) 0) + tp_blockInterval params \<le> real currentBlock)) \<or>
     (tp_triggerType params = ''blockFinalized'' \<and>
        (\<exists>b. p_getBlock provider TagFinalized False = Inr (Some b) \<and>
           or_else (sd_lastFinalized s) 0 < blk_number b)) \<or>
     (tp_triggerType params = ''transactionConfirmed'' \<and> sd_triggered s \<noteq> Some True \<and>
        (\<exists>rc currentBlock.
           p_getTransactionReceipt provider (tp_transactionHash params) = Inr (Some rc) \<and>
           p_getBlockNumber provider 0 = Inr currentBlock \<and>
           tp_confirmations params \<le> real currentBlock - real (rc_blockNumber rc))) \<or>
     (tp_triggerType params \<in>
        {''tokenTransfer'', ''nftTransfer'', ''contractEvent'', ''bridgeDeposit'',
         ''bridgeWithdrawal'', ''canvasBadgeMinted''} \<and>
        (\<exists>lastBlock currentBlock fl lg logs.
           read_block_window provider s = Inr (lastBlock, currentBlock) \<and>
           lastBlock < currentBlock \<and>
           flt_fromBlock fl = lastBlock + 1 \<and> flt_toBlock fl = currentBlock \<and>
           p_getLogs provider fl = Inr (lg # logs))) \<or>
     (tp_triggerType params = ''largeTransaction'' \<and>
        (\<exists>lastBlock currentBlock n b tx.
           read_block_window provider s = Inr (lastBlock, currentBlock) \<and>
           lastBlock < currentBlock \<and>
           lastBlock < n \<and> n \<le> currentBlock \<and> n \<le> lastBlock + 5 \<and>
           p_getBlock provider (BlockNum (real n)) True = Inr (Some b) \<and>
           tx \<in> set (blk_prefetchedTransactions b) \<and> large_tx_matches lib params tx)) \<or>
     (tp_triggerType params = ''addressActivity'' \<and>
        (\<exists>currentNonce.
           p_getTransactionCount provider (tp_watchAddress params) = Inr currentNonce \<and>
           (or_else (sd_lastNonce s) 0 < currentNonce \<or> or_else (sd_lastNonce s) 0 = 0)))"
    (is "?NB \<or> ?BF \<or> ?TC \<or> ?LG \<or> ?LT \<or> ?AA")
proof -
  let ?C = "?NB \<or> ?BF \<or> ?TC \<or> ?LG \<or> ?LT \<or> ?AA"
  have logs_case: "\<forall>events s'. poll_logs provider s address topics mk_event =
            Inr (Break events, s') \<longrightarrow> events \<noteq> [] \<longrightarrow> ?C"
    if k: "tp_triggerType params \<in>
        {''tokenTransfer'', ''nftTransfer'', ''contractEvent'', ''bridgeDeposit'',
         ''bridgeWithdrawal'', ''canvasBadgeMinted''}" for address topics mk_event
  proof (intro allI impI)
    fix events s'
    assume a: "poll_logs provider s address topics mk_event = Inr (Break events, s')"
      and b: "events \<noteq> []"
    have ?LG using k logs_emit [OF a b] by (intro conjI)
    then show ?C by (rule disjI2 [OF disjI2 [OF disjI2 [OF disjI1]]])
  qed
  from poll_Some_switch [OF assms] obtain events where
    sw: "poll_switch lib params provider s = Inr (Break events, s')" and ne: "events \<noteq> []"
    by blast
  have "\<forall>events s'. poll_switch lib params provider s = Inr (Break events, s') \<longrightarrow>
          events \<noteq> [] \<longrightarrow> ?C"
  proof (rule poll_switch_cases)
    assume "tp_triggerType params = ''newBlock''"
    then show "\<forall>events s'. poll_newBlock params provider s = Inr (Break events, s') \<longrightarrow>
          events \<noteq> [] \<longrightarrow> ?C"
      using newBlock_emits [of params provider s] by blast
  next
    assume "tp_triggerType params = ''blockFinalized''"
    then show "\<forall>events s'. poll_blockFinalized provider s = Inr (Break events, s') \<longrightarrow>
          events \<noteq> [] \<longrightarrow> ?C"
      using blockFinalized_emits [of provider s] by blast
  next
    assume "tp_triggerType params = ''transactionConfirmed''"
    then show "\<forall>events s'. poll_transactionConfirmed params provider s =
            Inr (Break events, s') \<longrightarrow> events \<noteq> [] \<longrightarrow> ?C"
      using transactionConfirmed_emits [of params provider s] by blast
  next
    assume "tp_triggerType params = ''tokenTransfer''"
    then show "\<forall>events s'. poll_tokenTransfer lib params provider s =
            Inr (Break events, s') \<longrightarrow> events \<noteq> [] \<longrightarrow> ?C"
      unfolding poll_tokenTransfer_def by (intro logs_case) simp
  next
    assume "tp_triggerType params = ''nftTransfer''"
    then show "\<forall>events s'. poll_nftTransfer lib params provider s =
            Inr (Break events, s') \<longrightarrow> events \<noteq> [] \<longrightarrow> ?C"
      unfolding poll_nftTransfer_def by (intro logs_case) simp
  next
    assume "tp_triggerType params = ''contractEvent''"
    then show "\<forall>events s'. poll_contractEvent lib params provider s =
            Inr (Break events, s') \<longrightarrow> events \<noteq> [] \<longrightarrow> ?C"
      unfolding poll_contractEvent_def by (intro logs_case) simp
  next
    assume "tp_triggerType params = ''addressActivity''"
    then show "\<forall>events s'. poll_addressActivity lib params provider s =
            Inr (Break events, s') \<longrightarrow> events \<noteq> [] \<longrightarrow> ?C"
      using addressActivity_emits [of lib params provider s] by blast
  next
    assume "tp_triggerType params = ''largeTransaction''"
    then show "\<forall>events s'. poll_largeTransaction lib params provider s =
            Inr (Break events, s') \<longrightarrow> events \<noteq> [] \<longrightarrow> ?C"
      using largeTransaction_emits [of lib params provider s] by blast
  next
    assume "tp_triggerType params = ''bridgeDeposit'' \<or>
            tp_triggerType params = ''bridgeWithdrawal''"
    then show "\<forall>events s'. poll_bridge lib params provider s =
            Inr (Break events, s') \<longrightarrow> events \<noteq> [] \<longrightarrow> ?C"
      unfolding poll_bridge_def by (intro logs_case) auto
  next
    assume "tp_triggerType params = ''canvasBadgeMinted''"
    then show "\<forall>events s'. poll_canvasBadgeMinted lib params provider s =
            Inr (Break events, s') \<longrightarrow> events \<noteq> [] \<longrightarrow> ?C"
      unfolding poll_canvasBadgeMinted_def by (intro logs_case) simp
  next
    show "\<forall>events s'. Inr (Break [], s) = Inr (Break events, s') \<longrightarrow> events \<noteq> [] \<longrightarrow> ?C"
      by simp
  qed
  then show ?thesis using sw ne by blast
qed

theorem poll_emits_only_on_condition_witness:
  "poll example_lib (example_trigger_params ''newBlock'') (Inr example_provider) example_state =
     Inr (Some [[\<lparr>item_json =
                    [(''blockNumber'', JNumber 100), (''blockHash'', JString ''0xb100''),
                     (''timestamp'', JNumber 1700000000), (''transactionCount'', JNumber 2),
                     (''gasUsed'', JString ''5000000''), (''gasLimit'', JString ''10000000'')],
                  item_pairedItem = None\<rparr>]],
          example_state\<lparr>sd_lastBlock := Some 100\<rparr>) \<and>
   or_else (sd_lastBlock example_state) 0 = 50 \<and>
   p_getBlockNumber example_provider 0 = Inr 100 \<and>
   real (50::nat) + tp_blockInterval (example_trigger_params ''newBlock'') \<le> real (100::nat)"
proof -
  have p: "poll example_lib (example_trigger_params ''newBlock'') (Inr example_provider)
             example_state =
     Inr (Some [[\<lparr>item_json =
                    [(''blockNumber'', JNumber 100), (''blockHash'', JString ''0xb100''),
                     (''timestamp'', JNumber 1700000000), (''transactionCount'', JNumber 2),
                     (''gasUsed'', JString ''5000000''), (''gasLimit'', JString ''10000000'')],
                  item_pairedItem = None\<rparr>]],
          example_state\<lparr>sd_lastBlock := Some 100\<rparr>)"
    by (simp add: poll_switch_simps poll_newBlock_def poll_eval example_defs opt_string_def
          bigint_toString_def nat_toString.simps)
  show ?thesis
    using poll_emits_only_on_condition [OF p] p
    by (simp add: example_defs)
qed

end
